theory Spec2Isabelle
  imports Complex_Main "HOL-Library.Word"
begin

unbundle bit_operations_syntax

section \<open>Bytes, buffers and the DataView accessors\<close>

text \<open>
  An ArrayBuffer, a Uint8Array or Int8Array over it and a DataView over it are all one
  list of bytes. JavaScript numbers that the driver handles are integers: \<open>int\<close> where
  they can be negative, \<open>nat\<close> where they are read from unsigned fields.
\<close>

type_synonym byte = "8 word"

datatype error =
    RangeError
  | MissingOutEndpoint
  | MissingInEndpoint
  | TransportError
  | UnexpectedResponse nat nat
  | DeviceTypeMismatch nat
  | InvalidFlashHeader nat
  | UnsupportedFlashVersion nat

text \<open>
  The getters of a DataView throw a RangeError when the field does not lie inside the
  view. A multi-byte getter reads big-endian unless its \<open>littleEndian\<close> flag is set.
\<close>

definition getUint8 :: "byte list \<Rightarrow> nat \<Rightarrow> error + nat" where
  "getUint8 dv off =
     (if off + 1 \<le> length dv then Inr (unat (dv ! off)) else Inl RangeError)"

definition getUint16 :: "byte list \<Rightarrow> nat \<Rightarrow> bool \<Rightarrow> error + nat" where
  "getUint16 dv off littleEndian =
     (if off + 2 \<le> length dv then
        Inr (if littleEndian
             then unat (dv ! off) + 256 * unat (dv ! (off + 1))
             else 256 * unat (dv ! off) + unat (dv ! (off + 1)))
      else Inl RangeError)"

definition getInt16 :: "byte list \<Rightarrow> nat \<Rightarrow> bool \<Rightarrow> error + int" where
  "getInt16 dv off littleEndian =
     (case getUint16 dv off littleEndian of
        Inl e \<Rightarrow> Inl e
      | Inr u \<Rightarrow> Inr (if u < 32768 then int u else int u - 65536))"

definition getUint32 :: "byte list \<Rightarrow> nat \<Rightarrow> bool \<Rightarrow> error + nat" where
  "getUint32 dv off littleEndian =
     (if off + 4 \<le> length dv then
        Inr (if littleEndian
             then unat (dv ! off) + 256 * unat (dv ! (off + 1))
                  + 65536 * unat (dv ! (off + 2)) + 16777216 * unat (dv ! (off + 3))
             else 16777216 * unat (dv ! off) + 65536 * unat (dv ! (off + 1))
                  + 256 * unat (dv ! (off + 2)) + unat (dv ! (off + 3)))
      else Inl RangeError)"

text \<open>
  The setters convert the number modulo the width of the field (\<open>word_of_int\<close> into a
  byte keeps the low eight bits) and throw a RangeError outside the view.
\<close>

definition setUint8 :: "byte list \<Rightarrow> nat \<Rightarrow> int \<Rightarrow> error + byte list" where
  "setUint8 dv off v =
     (if off + 1 \<le> length dv then Inr (dv[off := word_of_int v]) else Inl RangeError)"

definition setUint16 :: "byte list \<Rightarrow> nat \<Rightarrow> int \<Rightarrow> bool \<Rightarrow> error + byte list" where
  "setUint16 dv off v littleEndian =
     (if off + 2 \<le> length dv then
        Inr (if littleEndian
             then dv[off := word_of_int v, off + 1 := word_of_int (v div 256)]
             else dv[off := word_of_int (v div 256), off + 1 := word_of_int v])
      else Inl RangeError)"

definition setUint32 :: "byte list \<Rightarrow> nat \<Rightarrow> int \<Rightarrow> bool \<Rightarrow> error + byte list" where
  "setUint32 dv off v littleEndian =
     (if off + 4 \<le> length dv then
        Inr (if littleEndian
             then dv[off := word_of_int v, off + 1 := word_of_int (v div 256),
                     off + 2 := word_of_int (v div 65536),
                     off + 3 := word_of_int (v div 16777216)]
             else dv[off := word_of_int (v div 16777216),
                     off + 1 := word_of_int (v div 65536),
                     off + 2 := word_of_int (v div 256), off + 3 := word_of_int v])
      else Inl RangeError)"

text \<open>
  \<open>target.set(source, offset)\<close> of a typed array copies the source into the target from
  \<open>offset\<close> on and throws a RangeError when it does not fit.
\<close>

definition typedArraySet :: "byte list \<Rightarrow> byte list \<Rightarrow> nat \<Rightarrow> error + byte list" where
  "typedArraySet target source off =
     (if off + length source \<le> length target
      then Inr (take off target @ source @ drop (off + length source) target)
      else Inl RangeError)"

text \<open>The arrays of bytes that \<open>Uint8Array.from\<close> and \<open>Int8Array.from\<close> build from numbers.\<close>

definition Uint8Array_from :: "int list \<Rightarrow> byte list" where
  "Uint8Array_from xs = map word_of_int xs"

definition Int8Array_from :: "int list \<Rightarrow> byte list" where
  "Int8Array_from xs = map word_of_int xs"

section \<open>Command frames\<close>

text \<open>
  \<open>packCommand\<close> (owon.ts): a zeroed buffer of \<open>5 + data.byteLength\<close> bytes, the address
  written at 0 as a little-endian 32-bit value, the byte length at 4, the data from 5.
  Every caller passes a Uint8Array or an Int8Array, whose byte length is its length.
\<close>

definition packCommand :: "int \<Rightarrow> byte list \<Rightarrow> error + byte list" where
  "packCommand address data =
     (let headerSize = 4 + 1;
          buffer = replicate (headerSize + length data) (0 :: byte)
      in case setUint32 buffer 0 address True of
           Inl e \<Rightarrow> Inl e
         | Inr buffer1 \<Rightarrow>
             (case setUint8 buffer1 4 (int (length data)) of
                Inl e \<Rightarrow> Inl e
              | Inr buffer2 \<Rightarrow> typedArraySet buffer2 data headerSize))"

text \<open>The frame that \<open>packCommand\<close> lays out, written as one list.\<close>

definition frame :: "int \<Rightarrow> byte list \<Rightarrow> byte list" where
  "frame address data =
     [word_of_int address, word_of_int (address div 256), word_of_int (address div 65536),
      word_of_int (address div 16777216), word_of_int (int (length data))] @ data"

section \<open>Enumerations and constants of the driver\<close>

datatype Voltage = MV5 | MV10 | MV20 | MV50 | MV100 | MV200 | MV500 | V1 | V2 | V5

fun Voltage_value :: "Voltage \<Rightarrow> nat" where
  "Voltage_value MV5 = 0"
| "Voltage_value MV10 = 1"
| "Voltage_value MV20 = 2"
| "Voltage_value MV50 = 3"
| "Voltage_value MV100 = 4"
| "Voltage_value MV200 = 5"
| "Voltage_value MV500 = 6"
| "Voltage_value V1 = 7"
| "Voltage_value V2 = 8"
| "Voltage_value V5 = 9"

datatype Coupling = AC | DC | GND

fun Coupling_value :: "Coupling \<Rightarrow> nat" where
  "Coupling_value AC = 0"
| "Coupling_value DC = 1"
| "Coupling_value GND = 2"

datatype Channel = CH1 | CH2

fun Channel_value :: "Channel \<Rightarrow> nat" where
  "Channel_value Channel.CH1 = 0"
| "Channel_value Channel.CH2 = 1"

datatype TriggerSource = CH1 | CH2 | EXTERNAL

fun TriggerSource_value :: "TriggerSource \<Rightarrow> nat" where
  "TriggerSource_value TriggerSource.CH1 = 0"
| "TriggerSource_value TriggerSource.CH2 = 1"
| "TriggerSource_value EXTERNAL = 2"

datatype TriggerType = EDGE | SLOPE | VIDEO | PULSE

fun TriggerType_value :: "TriggerType \<Rightarrow> nat" where
  "TriggerType_value EDGE = 0"
| "TriggerType_value SLOPE = 1"
| "TriggerType_value VIDEO = 2"
| "TriggerType_value PULSE = 3"

datatype TriggerMode = SINGLE | ALTERNATE

fun TriggerMode_value :: "TriggerMode \<Rightarrow> nat" where
  "TriggerMode_value SINGLE = 0"
| "TriggerMode_value ALTERNATE = 1"

datatype TriggerSlope = RISING | FALLING

fun TriggerSlope_value :: "TriggerSlope \<Rightarrow> nat" where
  "TriggerSlope_value RISING = 0"
| "TriggerSlope_value FALLING = 1"

record ChannelOptions =
  channel :: Channel
  on :: bool
  voltage :: Voltage
  coupling :: Coupling

text \<open>In \<open>TriggerOptions\<close> the source declares \<open>type\<close> a TriggerMode and \<open>mode\<close> a TriggerType.\<close>

record TriggerOptions =
  source :: TriggerSource
  type :: TriggerMode
  mode :: TriggerType

record EdgeTriggerOptions =
  source :: TriggerSource
  mode :: TriggerMode
  type :: TriggerType
  slope :: TriggerSlope
  holdoffSeconds :: rat
  triggerLevel :: int

text \<open>
  The enumeration \<open>Address\<close> is a set of named numbers, some of them equal
  (\<open>EMPTY\<close> and \<open>EXT_TRIGGER_EDGE_LEVEL\<close>, for one). \<open>Address.CH1\<close> and \<open>Address.CH2\<close> are
  written \<open>Address_CH1\<close> and \<open>Address_CH2\<close>.
\<close>

definition Address_CH1 :: int where "Address_CH1 = 0x111"
definition Address_CH2 :: int where "Address_CH2 = 0x110"
definition CH1_VOLT_GAIN :: int where "CH1_VOLT_GAIN = 0x116"
definition CH2_VOLT_GAIN :: int where "CH2_VOLT_GAIN = 0x114"
definition CH1_ZERO_OFFSET :: int where "CH1_ZERO_OFFSET = 0x10a"
definition CH2_ZERO_OFFSET :: int where "CH2_ZERO_OFFSET = 0x108"
definition CH1_FREQUENCY_REFERENCE :: int where "CH1_FREQUENCY_REFERENCE = 0x4a"
definition CH2_FREQUENCY_REFERENCE :: int where "CH2_FREQUENCY_REFERENCE = 0x4b"
definition TIMEBASE :: int where "TIMEBASE = 0x52"
definition PHASE_FINE :: int where "PHASE_FINE = 0x18"
definition TRIGGER :: int where "TRIGGER = 0x24"
definition TRIGGER_D :: int where "TRIGGER_D = 0x1"
definition CH1_TRIGGER_HOLDOFF_ARG :: int where "CH1_TRIGGER_HOLDOFF_ARG = 0x26"
definition CH1_TRIGGER_HOLDOFF_INDEX :: int where "CH1_TRIGGER_HOLDOFF_INDEX = 0x27"
definition CH2_TRIGGER_HOLDOFF_ARG :: int where "CH2_TRIGGER_HOLDOFF_ARG = 0x2a"
definition CH2_TRIGGER_HOLDOFF_INDEX :: int where "CH2_TRIGGER_HOLDOFF_INDEX = 0x2b"
definition EXT_TRIGGER_HOLDOFF_ARG :: int where "EXT_TRIGGER_HOLDOFF_ARG = 0x26"
definition EXT_TRIGGER_HOLDOFF_INDEX :: int where "EXT_TRIGGER_HOLDOFF_INDEX = 0x27"
definition CH1_TRIGGER_EDGE_LEVEL :: int where "CH1_TRIGGER_EDGE_LEVEL = 0x2e"
definition CH2_TRIGGER_EDGE_LEVEL :: int where "CH2_TRIGGER_EDGE_LEVEL = 0x30"
definition EXT_TRIGGER_EDGE_LEVEL :: int where "EXT_TRIGGER_EDGE_LEVEL = 0x10c"
definition PRE_TRIGGER :: int where "PRE_TRIGGER = 0x5a"
definition SUF_TRIGGER :: int where "SUF_TRIGGER = 0x56"
definition DEEP_MEMORY :: int where "DEEP_MEMORY = 0x5c"
definition SLOW_MOVE :: int where "SLOW_MOVE = 0xa"
definition CHANNEL_ON :: int where "CHANNEL_ON = 0xb"
definition SYNC_OUTPUT :: int where "SYNC_OUTPUT = 0x6"
definition SAMPLE :: int where "SAMPLE = 0x9"
definition EMPTY :: int where "EMPTY = 0x10c"
definition HAS_DATA :: int where "HAS_DATA = 0x1"
definition DATA_FINISHED :: int where "DATA_FINISHED = 0x7a"
definition GET_DATA :: int where "GET_DATA = 0x1000"
definition FPGA_UPLOAD_QUERY :: int where "FPGA_UPLOAD_QUERY = 0x223"
definition FPGA_UPLOAD :: int where "FPGA_UPLOAD = 0x4000"

lemmas Address_defs =
  Address_CH1_def Address_CH2_def CH1_VOLT_GAIN_def CH2_VOLT_GAIN_def
  CH1_ZERO_OFFSET_def CH2_ZERO_OFFSET_def CH1_FREQUENCY_REFERENCE_def
  CH2_FREQUENCY_REFERENCE_def TIMEBASE_def PHASE_FINE_def TRIGGER_def TRIGGER_D_def
  CH1_TRIGGER_HOLDOFF_ARG_def CH1_TRIGGER_HOLDOFF_INDEX_def CH2_TRIGGER_HOLDOFF_ARG_def
  CH2_TRIGGER_HOLDOFF_INDEX_def EXT_TRIGGER_HOLDOFF_ARG_def
  EXT_TRIGGER_HOLDOFF_INDEX_def CH1_TRIGGER_EDGE_LEVEL_def CH2_TRIGGER_EDGE_LEVEL_def
  EXT_TRIGGER_EDGE_LEVEL_def PRE_TRIGGER_def SUF_TRIGGER_def DEEP_MEMORY_def
  SLOW_MOVE_def CHANNEL_ON_def SYNC_OUTPUT_def SAMPLE_def EMPTY_def HAS_DATA_def
  DATA_FINISHED_def GET_DATA_def FPGA_UPLOAD_QUERY_def FPGA_UPLOAD_def

text \<open>The lookup tables of the driver, each total on its key type.\<close>

fun TRIGGER_EDGE_LEVEL_ADDRESS :: "TriggerSource \<Rightarrow> int" where
  "TRIGGER_EDGE_LEVEL_ADDRESS TriggerSource.CH1 = CH1_TRIGGER_EDGE_LEVEL"
| "TRIGGER_EDGE_LEVEL_ADDRESS TriggerSource.CH2 = CH2_TRIGGER_EDGE_LEVEL"
| "TRIGGER_EDGE_LEVEL_ADDRESS EXTERNAL = EXT_TRIGGER_EDGE_LEVEL"

fun CHANNEL_ADDRESS :: "Channel \<Rightarrow> int" where
  "CHANNEL_ADDRESS Channel.CH1 = Address_CH1"
| "CHANNEL_ADDRESS Channel.CH2 = Address_CH2"

fun VOLT_GAIN_ADDRESS :: "Channel \<Rightarrow> int" where
  "VOLT_GAIN_ADDRESS Channel.CH1 = CH1_VOLT_GAIN"
| "VOLT_GAIN_ADDRESS Channel.CH2 = CH2_VOLT_GAIN"

fun ZERO_OFFSET_ADDRESS :: "Channel \<Rightarrow> int" where
  "ZERO_OFFSET_ADDRESS Channel.CH1 = CH1_ZERO_OFFSET"
| "ZERO_OFFSET_ADDRESS Channel.CH2 = CH2_ZERO_OFFSET"

datatype CalibrationField = GAIN | AMPLITUDE | COMPENSATION

fun CalibrationField_value :: "CalibrationField \<Rightarrow> nat" where
  "CalibrationField_value GAIN = 0"
| "CalibrationField_value AMPLITUDE = 1"
| "CalibrationField_value COMPENSATION = 2"

definition DEVICE_TYPE :: nat where "DEVICE_TYPE = 0x56"
definition FLASH_HEADER :: nat where "FLASH_HEADER = 0xaa55"
definition CALIBRATION_INFO_COUNT :: nat where "CALIBRATION_INFO_COUNT = 3"
definition CHANNEL_COUNT :: nat where "CHANNEL_COUNT = 2"
definition VOLTBASE_COUNT :: nat where "VOLTBASE_COUNT = 10"
definition AFFIRMATIVE_RESPONSE :: nat where "AFFIRMATIVE_RESPONSE = 0x53"
definition FPGA_ACCEPTING_UPLOAD_RESPONSE :: nat where "FPGA_ACCEPTING_UPLOAD_RESPONSE = 0x44"

section \<open>The session and its transport\<close>

datatype direction = DirIn | DirOut

record USBEndpoint =
  endpointNumber :: nat
  direction :: direction

text \<open>
  What crosses the boundary of the driver, in order: a bulk write with its endpoint and
  bytes, a bulk read with its endpoint, the length asked for and the data received, and a
  call of the sample callback with the buffer handed to it.
\<close>

datatype event =
    TransferOut nat "byte list"
  | TransferIn nat nat "byte list"
  | GotData "byte list"

text \<open>
  The state of a session. \<open>endpoints\<close>, \<open>responses\<close> and \<open>trace\<close> stand for the USB device
  \<open>device_\<close>: the endpoints of alternate 0 of interface 0, the data that its successive
  bulk reads will deliver, and the record of what has happened so far. The other fields
  are those of class \<open>Owon\<close> (written without the trailing underscore); \<open>calibrationData\<close>
  is the Uint16Array of 60 cells under the ndarray of shape \<open>[2, 3, 10]\<close>.
\<close>

record Owon =
  endpoints :: "USBEndpoint list"
  responses :: "byte list list"
  trace :: "event list"
  inEndpoint :: "USBEndpoint option"
  outEndpoint :: "USBEndpoint option"
  calibrationData :: "16 word list"
  firmwareVersion :: string
  serialNumber :: string

text \<open>
  An async method is a function from the state to a result and the state it leaves. A
  thrown error (a rejected promise) is \<open>Inl\<close>; what was done before the throw stays done.
\<close>

type_synonym 'a io = "Owon \<Rightarrow> (error + 'a) \<times> Owon"

definition return_io :: "'a \<Rightarrow> 'a io" where
  "return_io a s = (Inr a, s)"

definition throw_io :: "error \<Rightarrow> 'a io" where
  "throw_io e s = (Inl e, s)"

definition lift_io :: "error + 'a \<Rightarrow> 'a io" where
  "lift_io r s = (r, s)"

definition bind_io :: "'a io \<Rightarrow> ('a \<Rightarrow> 'b io) \<Rightarrow> 'b io" where
  "bind_io m f s = (case m s of (Inl e, s') \<Rightarrow> (Inl e, s') | (Inr a, s') \<Rightarrow> f a s')"

definition then_io :: "'a io \<Rightarrow> 'b io \<Rightarrow> 'b io" where
  "then_io m n = bind_io m (\<lambda>_. n)"

text \<open>
  The constructor: no endpoints yet, a zeroed calibration array, empty strings. The
  device is given by its endpoints and by the data it is going to answer with.
\<close>

definition constructor :: "USBEndpoint list \<Rightarrow> byte list list \<Rightarrow> Owon" where
  "constructor device_endpoints device_responses =
     \<lparr>endpoints = device_endpoints, responses = device_responses, trace = [],
      inEndpoint = None, outEndpoint = None,
      calibrationData = replicate 60 0,
      firmwareVersion = [], serialNumber = []\<rparr>"

text \<open>
  The ndarray has shape \<open>[2, 3, 10]\<close> in row-major order: cell \<open>(i, j, k)\<close> is element
  \<open>30 * i + 10 * j + k\<close> of the array. The indices come from the enumerations and from the
  loops of \<open>readFlash\<close>, which keep them inside the shape.
\<close>

definition ndarray_get :: "16 word list \<Rightarrow> nat \<Rightarrow> nat \<Rightarrow> nat \<Rightarrow> nat" where
  "ndarray_get a i j k = unat (a ! (30 * i + 10 * j + k))"

definition ndarray_set :: "16 word list \<Rightarrow> nat \<Rightarrow> nat \<Rightarrow> nat \<Rightarrow> nat \<Rightarrow> 16 word list" where
  "ndarray_set a i j k v = a[30 * i + 10 * j + k := word_of_nat v]"

text \<open>
  \<open>transferOut\<close> and \<open>transferIn\<close> throw when the endpoint is missing. The device accepts
  every write. A read delivers the next of the device's answers; when the device has none
  left the read is rejected.
\<close>

definition transferOut :: "byte list \<Rightarrow> unit io" where
  "transferOut packedCommand s =
     (case outEndpoint s of
        None \<Rightarrow> (Inl MissingOutEndpoint, s)
      | Some ep \<Rightarrow>
          (Inr (), s\<lparr>trace := trace s @ [TransferOut (endpointNumber ep) packedCommand]\<rparr>))"

definition transferIn :: "nat \<Rightarrow> byte list io" where
  "transferIn len s =
     (case inEndpoint s of
        None \<Rightarrow> (Inl MissingInEndpoint, s)
      | Some ep \<Rightarrow>
          (case responses s of
             [] \<Rightarrow> (Inl TransportError, s)
           | r # rs \<Rightarrow>
               (Inr r, s\<lparr>responses := rs,
                         trace := trace s @ [TransferIn (endpointNumber ep) len r]\<rparr>)))"

definition expectResponse :: "nat \<Rightarrow> byte list io" where
  "expectResponse expected =
     bind_io (transferIn 5) (\<lambda>data.
     bind_io (lift_io (getUint8 data 0)) (\<lambda>actual.
       if actual \<noteq> expected then throw_io (UnexpectedResponse expected actual)
       else return_io data))"

text \<open>The statement \<open>await this.transferOut(packCommand(address, data))\<close>.\<close>

definition sendCommand :: "int \<Rightarrow> byte list \<Rightarrow> unit io" where
  "sendCommand address data = bind_io (lift_io (packCommand address data)) transferOut"

definition getDeviceType :: "nat io" where
  "getDeviceType =
     then_io (sendCommand 0x4001 (Uint8Array_from [0x56]))
       (bind_io (transferIn 5) (\<lambda>receivedData. lift_io (getUint8 receivedData 0)))"

text \<open>
  \<open>open\<close>: the device is opened, its configuration selected and its interface claimed (all
  three taken to succeed), the first endpoint of each direction is kept, and the device
  type is asked for and compared.
\<close>

definition open_device :: "unit io" where
  "open_device s =
     (let s1 = s\<lparr>inEndpoint := (case filter (\<lambda>e. direction e = DirIn) (endpoints s) of
                                  [] \<Rightarrow> None | e # _ \<Rightarrow> Some e),
                  outEndpoint := (case filter (\<lambda>e. direction e = DirOut) (endpoints s) of
                                   [] \<Rightarrow> None | e # _ \<Rightarrow> Some e)\<rparr>
      in bind_io getDeviceType (\<lambda>deviceType.
           if deviceType \<noteq> DEVICE_TYPE then throw_io (DeviceTypeMismatch deviceType)
           else return_io ()) s1)"

section \<open>Configuration\<close>

text \<open>
  \<open>configureTrigger\<close> builds a local bit field from \<open>options.type\<close> and returns; it calls
  nothing and assigns to no field.
\<close>

definition configureTrigger :: "TriggerOptions \<Rightarrow> unit io" where
  "configureTrigger options s =
     (let triggerBitField = (0 :: 32 word);
          triggerBitField =
            triggerBitField OR push_bit 8 (word_of_nat (TriggerMode_value (TriggerOptions.type options)))
      in (Inr (), s))"

text \<open>\<open>this.calibrationData_.get(i, j, k)\<close>, a read of the session's table.\<close>

definition calibrationData_get :: "nat \<Rightarrow> nat \<Rightarrow> nat \<Rightarrow> nat io" where
  "calibrationData_get i j k s = (Inr (ndarray_get (calibrationData s) i j k), s)"

text \<open>
  \<open>configureChannel\<close>: the channel bit field, the gain and the zero offset, each written
  with \<open>transferOut\<close> and followed by \<open>expectResponse\<close>. The bit operations of JavaScript
  work on 32-bit integers.
\<close>

definition configureChannel :: "ChannelOptions \<Rightarrow> unit io" where
  "configureChannel options =
     (let channelBitField = (0 :: 32 word);
          channelBitField = (if on options then channelBitField OR 0x80 else channelBitField);
          channelBitField =
            channelBitField OR push_bit 5 (word_of_nat (Coupling_value (coupling options)));
          channelBitField = channelBitField OR 0x2
      in
      then_io (sendCommand (CHANNEL_ADDRESS (channel options))
                 (Uint8Array_from [sint channelBitField]))
     (then_io (expectResponse AFFIRMATIVE_RESPONSE)
     (bind_io (calibrationData_get (Channel_value (channel options))
                 (CalibrationField_value GAIN) (Voltage_value (voltage options)))
        (\<lambda>voltGain.
      bind_io (lift_io (setUint16 (replicate 2 0) 0 (int voltGain) True))
        (\<lambda>voltGainBuffer.
      then_io (sendCommand (VOLT_GAIN_ADDRESS (channel options)) voltGainBuffer)
     (then_io (expectResponse AFFIRMATIVE_RESPONSE)
     (bind_io (calibrationData_get (Channel_value (channel options))
                 (CalibrationField_value COMPENSATION) (Voltage_value (voltage options)))
        (\<lambda>compensation.
      bind_io (calibrationData_get (Channel_value (channel options))
                 (CalibrationField_value AMPLITUDE) (Voltage_value (voltage options)))
        (\<lambda>amplitude.
      let zeroOffset = int compensation - int (amplitude div 100) in
      bind_io (lift_io (setUint16 (replicate 2 0) 0 zeroOffset True))
        (\<lambda>zeroOffsetBuffer.
      then_io (sendCommand (ZERO_OFFSET_ADDRESS (channel options)) zeroOffsetBuffer)
     (then_io (expectResponse AFFIRMATIVE_RESPONSE)
        (return_io ()))))))))))))"

text \<open>
  \<open>configureEdgeTrigger\<close>, in three parts. \<open>edgeLevels\<close> is its computation of
  \<open>upperBound\<close> and \<open>lowerBound\<close>, with the two clamps in the order of the source.
\<close>

definition edgeLevels :: "EdgeTriggerOptions \<Rightarrow> int \<times> int" where
  "edgeLevels options =
     (let upperBound = (if slope options = RISING then triggerLevel options
                        else triggerLevel options + 10);
          lowerBound = (if slope options = RISING then triggerLevel options - 10
                        else triggerLevel options);
          (upperBound, lowerBound) =
            (if upperBound > 128 then (128, 128 - 10) else (upperBound, lowerBound));
          (upperBound, lowerBound) =
            (if lowerBound < - 128 then (- 128 + 10, - 128) else (upperBound, lowerBound))
      in (upperBound, lowerBound))"

text \<open>
  \<open>triggerTypeBitField\<close> is its computation of the trigger-type word. The enumeration
  values are small and not negative, so \<open>>>\<close> is \<open>drop_bit\<close>.
\<close>

definition triggerTypeBitField :: "EdgeTriggerOptions \<Rightarrow> 32 word" where
  "triggerTypeBitField options =
     (let type_w = (word_of_nat (TriggerType_value (type options)) :: 32 word);
          source_w = (word_of_nat (TriggerSource_value (source options)) :: 32 word);
          slope_w = (word_of_nat (TriggerSlope_value (slope options)) :: 32 word);
          triggerTypeBitField = (0 :: 32 word);
          triggerTypeBitField =
            (if mode options = SINGLE then
               (let f = triggerTypeBitField OR push_bit 8 (type_w AND 1);
                    f = f OR push_bit 14 (drop_bit 1 type_w AND 1)
                in if source options = EXTERNAL then f OR 1
                   else f OR push_bit 13 (source_w AND 1))
             else
               (let f = triggerTypeBitField OR push_bit 15 1;
                    f = f OR push_bit 13 (type_w AND 1);
                    f = f OR push_bit 8 (drop_bit 1 type_w AND 1)
                in f OR push_bit 14 (source_w AND 1)));
          sweep = (0 :: 32 word);
          triggerTypeBitField = triggerTypeBitField OR push_bit 12 (slope_w AND 1)
      in if mode options = SINGLE then
           (let f = triggerTypeBitField OR push_bit 10 (sweep AND 1)
            in f OR push_bit 11 (drop_bit 1 sweep AND 1))
         else triggerTypeBitField)"

definition configureEdgeTrigger :: "EdgeTriggerOptions \<Rightarrow> unit io" where
  "configureEdgeTrigger options =
     (let (upperBound, lowerBound) = edgeLevels options in
      then_io (sendCommand (TRIGGER_EDGE_LEVEL_ADDRESS (source options))
                 (Int8Array_from [upperBound, lowerBound]))
     (then_io (expectResponse AFFIRMATIVE_RESPONSE)
     (bind_io (lift_io (setUint16 (replicate 2 0) 0 (sint (triggerTypeBitField options)) True))
        (\<lambda>triggerTypeBuffer.
      then_io (sendCommand TRIGGER triggerTypeBuffer)
     (then_io (expectResponse AFFIRMATIVE_RESPONSE)
        (return_io ()))))))"

section \<open>The flash dump\<close>

text \<open>
  \<open>new Uint8Array(buffer, byteOffset, length)\<close>: a view of part of the buffer; a RangeError
  when the part does not lie inside it.
\<close>

definition Uint8Array_view :: "byte list \<Rightarrow> nat \<Rightarrow> nat \<Rightarrow> error + byte list" where
  "Uint8Array_view buffer byteOffset len =
     (if byteOffset + len \<le> length buffer then Inr (take len (drop byteOffset buffer))
      else Inl RangeError)"

text \<open>\<open>String.fromCharCode.apply(null, Array.from(bytes))\<close>: one character for each byte.\<close>

definition String_fromCharCode :: "byte list \<Rightarrow> string" where
  "String_fromCharCode bytes = map (\<lambda>b. char_of (unat b)) bytes"

text \<open>
  The three nested loops of \<open>readFlash\<close>, innermost first. Each takes the current values
  of its counter and of \<open>bufferOffset\<close> and returns the \<open>bufferOffset\<close> it ends with; the
  cells are stored with \<open>calibrationData_.set(channelIndex, calibrationInfoIndex,
  voltbaseIndex, value)\<close>.
\<close>

function voltbaseLoop :: "byte list \<Rightarrow> nat \<Rightarrow> nat \<Rightarrow> nat \<Rightarrow> nat \<Rightarrow> nat io" where
  "voltbaseLoop receivedData calibrationInfoIndex channelIndex voltbaseIndex bufferOffset s =
     (if voltbaseIndex < VOLTBASE_COUNT then
        (case getUint16 receivedData bufferOffset True of
           Inl e \<Rightarrow> (Inl e, s)
         | Inr v \<Rightarrow>
             voltbaseLoop receivedData calibrationInfoIndex channelIndex (voltbaseIndex + 1)
               (bufferOffset + 2)
               (s\<lparr>calibrationData :=
                    ndarray_set (calibrationData s) channelIndex calibrationInfoIndex
                      voltbaseIndex v\<rparr>))
      else (Inr bufferOffset, s))"
  by pat_completeness auto
termination
  by (relation "measure (\<lambda>(d, ci, ch, v, off, s). VOLTBASE_COUNT - v)") auto

function channelLoop :: "byte list \<Rightarrow> nat \<Rightarrow> nat \<Rightarrow> nat \<Rightarrow> nat io" where
  "channelLoop receivedData calibrationInfoIndex channelIndex bufferOffset s =
     (if channelIndex < CHANNEL_COUNT then
        (case voltbaseLoop receivedData calibrationInfoIndex channelIndex 0 bufferOffset s of
           (Inl e, s') \<Rightarrow> (Inl e, s')
         | (Inr bufferOffset', s') \<Rightarrow>
             channelLoop receivedData calibrationInfoIndex (channelIndex + 1) bufferOffset' s')
      else (Inr bufferOffset, s))"
  by pat_completeness auto
termination
  by (relation "measure (\<lambda>(d, ci, ch, off, s). CHANNEL_COUNT - ch)") auto

function calibrationInfoLoop :: "byte list \<Rightarrow> nat \<Rightarrow> nat \<Rightarrow> nat io" where
  "calibrationInfoLoop receivedData calibrationInfoIndex bufferOffset s =
     (if calibrationInfoIndex < CALIBRATION_INFO_COUNT then
        (case channelLoop receivedData calibrationInfoIndex 0 bufferOffset s of
           (Inl e, s') \<Rightarrow> (Inl e, s')
         | (Inr bufferOffset', s') \<Rightarrow>
             calibrationInfoLoop receivedData (calibrationInfoIndex + 1) bufferOffset' s')
      else (Inr bufferOffset, s))"
  by pat_completeness auto
termination
  by (relation "measure (\<lambda>(d, ci, off, s). CALIBRATION_INFO_COUNT - ci)") auto

declare voltbaseLoop.simps [simp del] channelLoop.simps [simp del]
  calibrationInfoLoop.simps [simp del]

text \<open>
  \<open>readFlash\<close>. The header is read big-endian (\<open>getUint16(0)\<close> without the flag), the
  version little-endian. The checksum is computed and logged only, so it is left out.
  The two strings are cut from the buffer of the response.
\<close>

definition readFlash :: "byte list io" where
  "readFlash =
     then_io (sendCommand 0x01b0 (Uint8Array_from [0x1]))
    (bind_io (transferIn 2002) (\<lambda>receivedData.
     bind_io (lift_io (getUint16 receivedData 0 False)) (\<lambda>header.
     if header \<noteq> FLASH_HEADER then throw_io (InvalidFlashHeader header) else
     bind_io (lift_io (getUint32 receivedData 2 True)) (\<lambda>version.
     if version \<noteq> 2 then throw_io (UnsupportedFlashVersion version) else
     then_io (calibrationInfoLoop receivedData 0 6)
    (bind_io (lift_io (Uint8Array_view receivedData 207 4)) (\<lambda>firmwareVersionBytes.
     then_io (\<lambda>s. (Inr (), s\<lparr>firmwareVersion := String_fromCharCode firmwareVersionBytes\<rparr>))
    (bind_io (lift_io (Uint8Array_view receivedData 212 15)) (\<lambda>serialNumberBytes.
     then_io (\<lambda>s. (Inr (), s\<lparr>serialNumber := String_fromCharCode serialNumberBytes\<rparr>))
       (return_io receivedData)))))))))"

text \<open>The little-endian 16-bit value at an offset of the dump, as a cell of the table.\<close>

definition flash_cell :: "byte list \<Rightarrow> nat \<Rightarrow> 16 word" where
  "flash_cell dv off = word_of_nat (unat (dv ! off) + 256 * unat (dv ! (off + 1)))"

section \<open>Acquisition\<close>

text \<open>
  \<open>getData\<close> asks once for data with the payload \<open>05 05\<close>, reads a sample frame and looks
  at its first byte. Nothing in the repository calls it.
\<close>

definition getData :: "unit io" where
  "getData =
     then_io (sendCommand GET_DATA (Uint8Array_from [0x05, 0x05]))
    (bind_io (transferIn 5211) (\<lambda>receivedData.
     bind_io (lift_io (getUint8 receivedData 0)) (\<lambda>channel.
       return_io ())))"

text \<open>
  The call \<open>gotData(receivedData)\<close> of the callback. The callback of the application is an
  async function, so nothing it throws reaches the loop; the call is recorded in the
  trace.
\<close>

definition callGotData :: "byte list \<Rightarrow> unit io" where
  "callGotData receivedData s = (Inr (), s\<lparr>trace := trace s @ [GotData receivedData]\<rparr>)"

text \<open>The body of the \<open>for\<close> loop of \<open>sampleInfinitely\<close>: one cycle.\<close>

definition sampleCycle :: "unit io" where
  "sampleCycle =
     then_io (sendCommand TRIGGER_D (Uint8Array_from [0x00]))
    (then_io (expectResponse AFFIRMATIVE_RESPONSE)
    (then_io (sendCommand DATA_FINISHED (Uint8Array_from [0x00]))
    (then_io (expectResponse AFFIRMATIVE_RESPONSE)
    (then_io (sendCommand 4096 (Uint8Array_from [0x05, 0x04]))
    (bind_io (transferIn 5211) (\<lambda>receivedData.
       callGotData receivedData))))))"

text \<open>The loop \<open>for (let i = 0; i < 5000; i++)\<close>, from the value \<open>i\<close> of its counter on.\<close>

function sampleLoop :: "nat \<Rightarrow> unit io" where
  "sampleLoop i s =
     (if i < 5000 then
        (case sampleCycle s of
           (Inl e, s') \<Rightarrow> (Inl e, s')
         | (Inr _, s') \<Rightarrow> sampleLoop (i + 1) s')
      else (Inr (), s))"
  by pat_completeness auto
termination
  by (relation "measure (\<lambda>(i, s). 5000 - i)") auto


text \<open>How many times the callback has been called, read off a trace.\<close>

fun gotDataCount :: "event list \<Rightarrow> nat" where
  "gotDataCount [] = 0"
| "gotDataCount (GotData d # evs) = Suc (gotDataCount evs)"
| "gotDataCount (ev # evs) = gotDataCount evs"

text \<open>
  Vocabulary for the statements about the loop: a response whose status byte is the
  affirmative one; the events of one cycle that is answered with two acknowledgements
  and a sample frame; a method that calls the callback at most \<open>k\<close> times.
\<close>

definition affirmative :: "byte list \<Rightarrow> bool" where
  "affirmative r = (getUint8 r 0 = Inr AFFIRMATIVE_RESPONSE)"

definition cycle_events :: "nat \<Rightarrow> nat \<Rightarrow> byte list \<times> byte list \<times> byte list \<Rightarrow> event list" where
  "cycle_events eo ei c =
     (case c of (a1, a2, f) \<Rightarrow>
        [TransferOut eo (frame 0x1 [0x00]), TransferIn ei 5 a1,
         TransferOut eo (frame 0x7a [0x00]), TransferIn ei 5 a2,
         TransferOut eo (frame 0x1000 [0x05, 0x04]), TransferIn ei 5211 f,
         GotData f])"



definition calls_at_most :: "nat \<Rightarrow> 'a io \<Rightarrow> bool" where
  "calls_at_most k m =
     (\<forall>s. gotDataCount (trace (snd (m s))) \<le> gotDataCount (trace s) + k)"

section \<open>Firmware upload\<close>

text \<open>
  The inner loop of \<open>uploadFpgaBitstream\<close>: the frame buffer goes out in pieces of at most
  64 bytes, one \<open>transferOut\<close> each, from \<open>chunkOffset\<close> on.
\<close>

function sendChunks :: "byte list \<Rightarrow> nat \<Rightarrow> unit io" where
  "sendChunks mcuBuffer chunkOffset s =
     (if chunkOffset < length mcuBuffer then
        (let chunkBufferSize = min 64 (length mcuBuffer - chunkOffset)
         in case bind_io (lift_io (Uint8Array_view mcuBuffer chunkOffset chunkBufferSize))
                   transferOut s of
              (Inl e, s') \<Rightarrow> (Inl e, s')
            | (Inr _, s') \<Rightarrow> sendChunks mcuBuffer (chunkOffset + 64) s')
      else (Inr (), s))"
  by pat_completeness auto
termination
  by (relation "measure (\<lambda>(b, off, s). length b - off)") auto

declare sendChunks.simps [simp del]

text \<open>
  The body of the outer loop, for the offset \<open>i\<close> into the image and the frame index: the
  buffer of \<open>transmitDataSize + 4\<close> bytes (a RangeError for a negative length), the index
  in its first four bytes, the slice of the image behind it, the pieces sent, and one
  response expected to be affirmative.
\<close>

definition uploadFrame :: "byte list \<Rightarrow> int \<Rightarrow> int \<Rightarrow> int \<Rightarrow> unit io" where
  "uploadFrame fpgaFirmware mcuDataSize i mcuFrameIndex =
     (let transmitDataSize = min mcuDataSize (int (length fpgaFirmware) - i);
          transmitBufferSize = transmitDataSize + 4
      in if transmitBufferSize < 0 then throw_io RangeError
         else
           bind_io (lift_io (setUint32 (replicate (nat transmitBufferSize) 0) 0 mcuFrameIndex True))
             (\<lambda>mcuBuffer.
           bind_io (lift_io (if i < 0 \<or> transmitDataSize < 0 then Inl RangeError
                             else Uint8Array_view fpgaFirmware (nat i) (nat transmitDataSize)))
             (\<lambda>slice.
           bind_io (lift_io (typedArraySet mcuBuffer slice 4))
             (\<lambda>mcuBuffer.
           then_io (sendChunks mcuBuffer 0)
          (then_io (expectResponse AFFIRMATIVE_RESPONSE)
             (return_io ()))))))"

text \<open>A frame that is sent and acknowledged takes one answer from the device.\<close>

lemma transferOut_responses:
  "transferOut d s = (r, s') \<Longrightarrow> responses s' = responses s"
  by (auto simp add: transferOut_def split: option.splits)

lemma sendChunks_responses:
  "sendChunks b off s = (r, s') \<Longrightarrow> responses s' = responses s"
proof (induction b off s arbitrary: r s' rule: sendChunks.induct)
  case (1 b off s)
  show ?case
  proof (cases "off < length b")
    case False
    then show ?thesis using "1.prems" by (subst (asm) sendChunks.simps) simp
  next
    case True
    let ?n = "min 64 (length b - off)"
    obtain r1 s1 where t: "bind_io (lift_io (Uint8Array_view b off ?n)) transferOut s = (r1, s1)"
      by (cases "bind_io (lift_io (Uint8Array_view b off ?n)) transferOut s")
    have s1: "responses s1 = responses s"
      using t transferOut_responses
      by (auto simp add: bind_io_def lift_io_def split: sum.splits)
    show ?thesis
    proof (cases r1)
      case (Inl e)
      then show ?thesis using "1.prems" True t s1
        by (subst (asm) sendChunks.simps) (simp add: Let_def)
    next
      case (Inr u)
      have "sendChunks b (off + 64) s1 = (r, s')"
        using "1.prems" True t Inr by (subst (asm) sendChunks.simps) (simp add: Let_def)
      then have "responses s' = responses s1"
        using "1.IH"[OF True refl t[symmetric] Inr] by simp
      then show ?thesis using s1 by simp
    qed
  qed
qed

lemma expectResponse_consumes:
  "expectResponse e s = (Inr d, s') \<Longrightarrow> length (responses s') < length (responses s)"
  by (auto simp add: expectResponse_def bind_io_def transferIn_def lift_io_def throw_io_def
      return_io_def split: option.splits list.splits sum.splits if_splits)

lemma uploadFrame_consumes:
  assumes "uploadFrame fw D i idx s = (Inr u, s')"
  shows "length (responses s') < length (responses s)"
proof -
  have "\<exists>b s1 d. sendChunks b 0 s = (Inr (), s1) \<and> expectResponse AFFIRMATIVE_RESPONSE s1 = (Inr d, s')"
    using assms
    by (auto simp add: uploadFrame_def Let_def bind_io_def then_io_def lift_io_def throw_io_def
        return_io_def split: if_splits sum.splits prod.splits)
  then show ?thesis
    using sendChunks_responses expectResponse_consumes by metis
qed


text \<open>
  The outer loop, from the values \<open>i\<close> and \<open>mcuFrameIndex\<close> of its counters on. It ends
  for every device that runs out of answers: a frame that is sent and acknowledged uses
  one up, also when \<open>mcuDataSize\<close> is 0 and \<open>i\<close> does not advance.
\<close>

function uploadFrames :: "byte list \<Rightarrow> int \<Rightarrow> int \<Rightarrow> int \<Rightarrow> unit io" where
  "uploadFrames fpgaFirmware mcuDataSize i mcuFrameIndex s =
     (if i < int (length fpgaFirmware) then
        (case uploadFrame fpgaFirmware mcuDataSize i mcuFrameIndex s of
           (Inl e, s') \<Rightarrow> (Inl e, s')
         | (Inr _, s') \<Rightarrow>
             uploadFrames fpgaFirmware mcuDataSize (i + mcuDataSize) (mcuFrameIndex + 1) s')
      else (Inr (), s))"
  by pat_completeness auto
termination
  by (relation "measure (\<lambda>(fw, D, i, idx, s). length (responses s))")
    (auto dest: uploadFrame_consumes[OF sym])

declare uploadFrames.simps [simp del]

text \<open>
  \<open>uploadFpgaBitstream\<close>, from the image on (the bytes that the \<open>fetch\<close> delivered): the
  image length announced to \<open>FPGA_UPLOAD\<close>, the handshake response with the size of the
  device's buffer in its bytes 1 to 4, and the frames.
\<close>

definition uploadFpgaBitstream :: "byte list \<Rightarrow> unit io" where
  "uploadFpgaBitstream fpgaFirmware =
     bind_io (lift_io (setUint32 (replicate 4 0) 0 (int (length fpgaFirmware)) True))
       (\<lambda>firmwareSizeBuffer.
     then_io (sendCommand FPGA_UPLOAD firmwareSizeBuffer)
    (bind_io (expectResponse FPGA_ACCEPTING_UPLOAD_RESPONSE) (\<lambda>uploadResponseData.
     bind_io (lift_io (getUint32 uploadResponseData 1 True)) (\<lambda>mcuBufferSize.
     let mcuDataSize = int mcuBufferSize - 4
     in uploadFrames fpgaFirmware mcuDataSize 0 0))))"

text \<open>
  Vocabulary for the statements about the upload: a buffer cut into pieces of at most 64
  bytes, and the buffer of a frame, its index in little-endian order before its data.
\<close>

fun chunks :: "byte list \<Rightarrow> byte list list" where
  "chunks [] = []"
| "chunks (b # bs) = take 64 (b # bs) # chunks (drop 64 (b # bs))"

definition frame_buffer :: "int \<Rightarrow> byte list \<Rightarrow> byte list" where
  "frame_buffer mcuFrameIndex data =
     [word_of_int mcuFrameIndex, word_of_int (mcuFrameIndex div 256),
      word_of_int (mcuFrameIndex div 65536), word_of_int (mcuFrameIndex div 16777216)] @ data"

section \<open>Decoding a sample frame\<close>

text \<open>
  \<open>gotData\<close> of the component (HelloWorld.vue), up to the array it hands to the plot. It
  reads the channel byte, then fills a zeroed array of 1275 samples inside a \<open>try\<close> block
  whose \<open>catch\<close> only logs: a throw of \<open>getInt16\<close> ends the loop and keeps what has been
  stored. Storing at an index outside a typed array does nothing, as \<open>list_update\<close>
  does. The samples are kept as exact quotients; the rounding of the product to a 32-bit
  float is not modelled.
\<close>

definition multiplier :: rat where
  "multiplier = 1 / 3096"

function decodeLoop :: "byte list \<Rightarrow> nat \<Rightarrow> nat \<Rightarrow> rat list \<Rightarrow> error option \<times> rat list" where
  "decodeLoop dataView byteIndex timeIndex floatData =
     (if byteIndex < length dataView then
        (case getInt16 dataView byteIndex True of
           Inl e \<Rightarrow> (Some e, floatData)
         | Inr v \<Rightarrow>
             decodeLoop dataView (byteIndex + 4) (timeIndex + 1)
               (floatData[timeIndex := of_int v * multiplier]))
      else (None, floatData))"
  by pat_completeness auto
termination
  by (relation "measure (\<lambda>(d, b, t, f). length d - b)") auto

declare decodeLoop.simps [simp del]

definition gotData :: "byte list \<Rightarrow> error + rat list" where
  "gotData dataView =
     (case getUint8 dataView 0 of
        Inl e \<Rightarrow> Inl e
      | Inr channelByte \<Rightarrow>
          (let floatData = replicate 1275 0;
               (caught, floatData) = decodeLoop dataView (11 + 100) 0 floatData
           in Inr floatData))"

text \<open>The signed little-endian 16-bit value at an offset, scaled: the sample read there.\<close>

definition sample_at :: "byte list \<Rightarrow> nat \<Rightarrow> rat" where
  "sample_at dataView off =
     (let u = unat (dataView ! off) + 256 * unat (dataView ! (off + 1))
      in of_int (if u < 32768 then int u else int u - 65536) * multiplier)"

section \<open>A session to run the driver on\<close>

text \<open>
  A device with one bulk endpoint in each direction, and the session that the constructor
  and \<open>open\<close> make of it when the device reports the expected type and will answer the
  reads that follow with \<open>device_responses\<close>.
\<close>

definition example_endpoints :: "USBEndpoint list" where
  "example_endpoints =
     [\<lparr>endpointNumber = 1, direction = DirIn\<rparr>, \<lparr>endpointNumber = 3, direction = DirOut\<rparr>]"

definition example_session :: "byte list list \<Rightarrow> Owon" where
  "example_session device_responses =
     snd (open_device (constructor example_endpoints ([0x56, 0, 0, 0, 0] # device_responses)))"

section \<open>Properties of command frames\<close>

lemma mod_65536_bytes: "(a::int) mod 65536 = a mod 256 + 256 * (a div 256 mod 256)"
proof -
  have A: "a mod (256 * 256) = 256 * (a div 256 mod 256) + a mod 256"
    by (rule zmod_zmult2_eq) simp
  have B: "(256::int) * 256 = 65536" by simp
  show ?thesis using A unfolding B by (simp only: add.commute)
qed

lemma mod_2_32_bytes:
  "(a::int) mod 4294967296 =
     a mod 256 + 256 * (a div 256 mod 256) + 65536 * (a div 65536 mod 256)
     + 16777216 * (a div 16777216 mod 256)"
proof -
  have B: "(65536::int) * 65536 = 4294967296" "(65536::int) * 256 = 16777216" by simp_all
  have A: "a mod (65536 * 65536) = 65536 * (a div 65536 mod 65536) + a mod 65536"
    by (rule zmod_zmult2_eq) simp
  have C: "a div 65536 div 256 = a div (65536 * 256)"
    by (rule zdiv_zmult2_eq[symmetric]) simp
  have D: "65536 * (a div 65536 mod 65536) =
     65536 * (a div 65536 mod 256) + 16777216 * (a div 16777216 mod 256)"
    unfolding mod_65536_bytes[of "a div 65536"] C B
    by (simp only: distrib_left mult.assoc[symmetric] B)
  show ?thesis
    using A unfolding B D mod_65536_bytes[of a]
    by (simp only: ac_simps)
qed

lemma unat_byte_of_int: "unat (word_of_int v :: byte) = nat (v mod 256)"
  by (simp add: unat_eq_nat_uint uint_word_of_int)

lemma packCommand_frame: "packCommand address data = Inr (frame address data)"
  by (simp add: packCommand_def frame_def setUint32_def setUint8_def typedArraySet_def
      numeral_eq_Suc)

lemma frame_address: "getUint32 (frame address data) 0 True = Inr (nat (address mod 4294967296))"
  by (simp add: getUint32_def frame_def unat_byte_of_int mod_2_32_bytes
      nat_add_distrib nat_mult_distrib)

lemma frame_length_byte: "getUint8 (frame address data) 4 = Inr (length data mod 256)"
  by (simp add: getUint8_def frame_def unat_of_nat)

text \<open>
  Claim C4, as the code has it. For every address and every payload, of any length,
  \<open>packCommand\<close> returns a frame and never fails: the frame has exactly
  \<open>5 + length data\<close> bytes, its first four bytes are the address modulo \<open>2^32\<close> in
  little-endian order, its fifth byte is the payload length modulo 256 (the length itself
  when it is at most 255), and the payload follows unchanged.
\<close>

theorem packCommand_layout:
  "\<exists>f. packCommand address data = Inr f
      \<and> length f = 5 + length data
      \<and> getUint32 f 0 True = Inr (nat (address mod 4294967296))
      \<and> getUint8 f 4 = Inr (length data mod 256)
      \<and> drop 5 f = data"
proof -
  have "length (frame address data) = 5 + length data"
    by (simp add: frame_def)
  moreover have "drop 5 (frame address data) = data"
    by (simp add: frame_def)
  ultimately show ?thesis
    using packCommand_frame frame_address frame_length_byte by blast
qed

text \<open>
  Claim C4 as stated fails for long payloads: a payload of 256 bytes is longer than 255,
  yet \<open>packCommand\<close> returns a frame of 261 bytes for it, whose length byte is 0.
\<close>

theorem packCommand_long_payload_counterexample:
  "length (replicate 256 (0 :: byte)) > 255
   \<and> packCommand 4096 (replicate 256 0) = Inr ([0, 16, 0, 0, 0] @ replicate 256 0)"
  by (simp add: packCommand_frame frame_def)

section \<open>Running the transport\<close>

lemma replicate_2: "replicate 2 x = [x, x]"
  by (simp add: numeral_2_eq_2)

lemma sendCommand_ok:
  "outEndpoint s = Some ep \<Longrightarrow>
   sendCommand a d s =
     (Inr (), s\<lparr>trace := trace s @ [TransferOut (endpointNumber ep) (frame a d)]\<rparr>)"
  by (simp add: sendCommand_def bind_io_def lift_io_def packCommand_frame transferOut_def)

lemma expectResponse_ok:
  "inEndpoint s = Some ep \<Longrightarrow> responses s = r # rs \<Longrightarrow> getUint8 r 0 = Inr expected \<Longrightarrow>
   expectResponse expected s =
     (Inr r, s\<lparr>responses := rs, trace := trace s @ [TransferIn (endpointNumber ep) 5 r]\<rparr>)"
  by (simp add: expectResponse_def bind_io_def lift_io_def transferIn_def return_io_def)

lemma expectResponse_unexpected:
  "inEndpoint s = Some ep \<Longrightarrow> responses s = r # rs \<Longrightarrow> getUint8 r 0 = Inr actual \<Longrightarrow>
   actual \<noteq> expected \<Longrightarrow>
   expectResponse expected s =
     (Inl (UnexpectedResponse expected actual),
      s\<lparr>responses := rs, trace := trace s @ [TransferIn (endpointNumber ep) 5 r]\<rparr>)"
  by (simp add: expectResponse_def bind_io_def lift_io_def transferIn_def throw_io_def)

lemmas run_simps =
  then_io_def bind_io_def lift_io_def return_io_def sendCommand_ok expectResponse_ok

lemma open_device_example:
  "open_device (constructor example_endpoints ([0x56, 0, 0, 0, 0] # rs)) =
     (Inr (),
      \<lparr>endpoints = example_endpoints, responses = rs,
       trace = [TransferOut 3 [0x01, 0x40, 0, 0, 1, 0x56], TransferIn 1 5 [0x56, 0, 0, 0, 0]],
       inEndpoint = Some \<lparr>endpointNumber = 1, direction = DirIn\<rparr>,
       outEndpoint = Some \<lparr>endpointNumber = 3, direction = DirOut\<rparr>,
       calibrationData = replicate 60 0, firmwareVersion = [], serialNumber = []\<rparr>)"
  by (simp add: open_device_def constructor_def example_endpoints_def getDeviceType_def
      run_simps transferIn_def getUint8_def DEVICE_TYPE_def frame_def Uint8Array_from_def)

lemma example_session_eq:
  "example_session rs =
      \<lparr>endpoints = example_endpoints, responses = rs,
       trace = [TransferOut 3 [0x01, 0x40, 0, 0, 1, 0x56], TransferIn 1 5 [0x56, 0, 0, 0, 0]],
       inEndpoint = Some \<lparr>endpointNumber = 1, direction = DirIn\<rparr>,
       outEndpoint = Some \<lparr>endpointNumber = 3, direction = DirOut\<rparr>,
       calibrationData = replicate 60 0, firmwareVersion = [], serialNumber = []\<rparr>"
  by (simp only: example_session_def open_device_example snd_conv)

section \<open>The trigger\<close>

text \<open>
  Claim C10. For every input, \<open>configureTrigger\<close> returns normally and leaves the whole state
  as it was: the trace of transfers (no write, no read), the answers the device still
  holds, and every field of the session.
\<close>

theorem configureTrigger_no_effect: "configureTrigger options s = (Inr (), s)"
  by (simp add: configureTrigger_def)

text \<open>
  Claim C1, evaluated where the code departs from it. For \<open>triggerLevel = 200\<close> and a
  rising slope the code clamps the upper level at 128, not 127, and the lower level is
  118. The value 128 does not fit a signed byte: \<open>Int8Array.from\<close> stores it as \<open>-128\<close>, and
  the bytes \<open>0x80 0x76\<close> are what the edge-level register of channel 1 (\<open>0x2e\<close>) receives.
\<close>

theorem edgeLevels_clamps_upper_at_128:
  "edgeLevels \<lparr>source = TriggerSource.CH1, mode = SINGLE, type = EDGE, slope = RISING,
               holdoffSeconds = 0, triggerLevel = 200\<rparr> = (128, 118)
   \<and> map sint (Int8Array_from [128, 118]) = [- 128, 118]
   \<and> trace (snd (configureEdgeTrigger
         \<lparr>source = TriggerSource.CH1, mode = SINGLE, type = EDGE, slope = RISING,
          holdoffSeconds = 0, triggerLevel = 200\<rparr>
         (example_session [[0x53, 0, 0, 0, 0], [0x53, 0, 0, 0, 0]]))) ! 2
       = TransferOut 3 [0x2e, 0, 0, 0, 2, 0x80, 0x76]"
  by (simp add: edgeLevels_def Int8Array_from_def example_session_eq configureEdgeTrigger_def
      run_simps getUint8_def AFFIRMATIVE_RESPONSE_def setUint16_def replicate_2
      frame_def CH1_TRIGGER_EDGE_LEVEL_def)

lemma bit_push_and_1:
  "bit (push_bit m (w AND (1 :: 32 word))) n \<longleftrightarrow> n = m \<and> m < 32 \<and> odd w"
  by (auto simp add: bit_simps bit_0)

lemma bit_push_1: "bit (push_bit m (1 :: 32 word)) n \<longleftrightarrow> n = m \<and> m < 32"
  by (auto simp add: bit_simps)

lemma bit_1w: "bit (1 :: 32 word) n \<longleftrightarrow> n = 0"
  by (simp add: bit_1_iff)

lemma bit_0w: "bit (0 :: 32 word) n \<longleftrightarrow> False"
  by simp

lemma odd_w: "odd (word_of_nat k :: 32 word) \<longleftrightarrow> odd k"
  by (simp add: even_word_iff unat_of_nat)

lemma odd_drop_w: "odd (drop_bit 1 (word_of_nat k :: 32 word)) \<longleftrightarrow> odd (k div 2)"
proof -
  have "odd (drop_bit 1 (word_of_nat k :: 32 word)) \<longleftrightarrow> bit (word_of_nat k :: 32 word) 1"
    by (simp only: bit_iff_odd_drop_bit)
  also have "\<dots> \<longleftrightarrow> bit k 1"
    by (simp only: bit_of_nat_iff) simp
  also have "\<dots> \<longleftrightarrow> odd (k div 2)"
    by (simp add: bit_iff_odd_drop_bit drop_bit_eq_div)
  finally show ?thesis .
qed

lemma triggerTypeBitField_bits:
  "bit (triggerTypeBitField options) n \<longleftrightarrow>
     (n = 12 \<and> odd (TriggerSlope_value (slope options)))
   \<or> (mode options = SINGLE \<and>
        (n = 8 \<and> odd (TriggerType_value (type options))
       \<or> n = 14 \<and> odd (TriggerType_value (type options) div 2)
       \<or> n = 0 \<and> source options = EXTERNAL
       \<or> n = 13 \<and> source options \<noteq> EXTERNAL
                \<and> odd (TriggerSource_value (source options))))
   \<or> (mode options = ALTERNATE \<and>
        (n = 15
       \<or> n = 13 \<and> odd (TriggerType_value (type options))
       \<or> n = 8 \<and> odd (TriggerType_value (type options) div 2)
       \<or> n = 14 \<and> odd (TriggerSource_value (source options))))"
  unfolding triggerTypeBitField_def Let_def
  apply (cases "mode options"; cases "source options = EXTERNAL")
     apply (simp_all only: if_True if_False TriggerMode.distinct bit_or_iff bit_push_and_1
      bit_push_1 bit_1w bit_0w odd_w odd_drop_w simp_thms)
     apply auto
  done

lemma triggerTypeBitField_16:
  "take_bit 16 (triggerTypeBitField options) = triggerTypeBitField options"
  by (rule bit_eqI) (auto simp add: bit_take_bit_iff triggerTypeBitField_bits)

lemma triggerTypeBitField_lt: "unat (triggerTypeBitField options) < 65536"
proof -
  have "unat (take_bit 16 (triggerTypeBitField options)) < 2 ^ 16"
    by (simp only: unsigned_take_bit_eq take_bit_nat_less_exp)
  then show ?thesis by (simp add: triggerTypeBitField_16)
qed

lemma sint_bytes:
  fixes w :: "32 word"
  shows "getUint16 [word_of_int (sint w), word_of_int (sint w div 256)] 0 True
           = Inr (unat w mod 65536)"
proof -
  have "uint w = sint w mod 2 ^ 32"
    by (simp add: uint_sint take_bit_eq_mod)
  then have "uint w mod 65536 = sint w mod 65536"
    by (simp add: mod_mod_cancel)
  then have "int (unat w mod 65536) = sint w mod 65536"
    by (simp add: zmod_int)
  then have "unat w mod 65536 = nat (sint w mod 65536)"
    by linarith
  then show ?thesis
    by (simp add: getUint16_def unat_byte_of_int mod_65536_bytes[of "sint w"]
        nat_add_distrib nat_mult_distrib del: of_int_sint)
qed

lemma configureEdgeTrigger_run:
  assumes "outEndpoint s = Some eo" "inEndpoint s = Some ei"
    and "responses s = r1 # r2 # rest"
    and "getUint8 r1 0 = Inr AFFIRMATIVE_RESPONSE" "getUint8 r2 0 = Inr AFFIRMATIVE_RESPONSE"
  shows "configureEdgeTrigger options s =
     (Inr (), s\<lparr>responses := rest,
        trace := trace s @
          [TransferOut (endpointNumber eo)
             (frame (TRIGGER_EDGE_LEVEL_ADDRESS (source options))
                [word_of_int (fst (edgeLevels options)), word_of_int (snd (edgeLevels options))]),
           TransferIn (endpointNumber ei) 5 r1,
           TransferOut (endpointNumber eo)
             (frame TRIGGER [word_of_int (sint (triggerTypeBitField options)),
                             word_of_int (sint (triggerTypeBitField options) div 256)]),
           TransferIn (endpointNumber ei) 5 r2]\<rparr>)"
  using assms
  by (simp add: configureEdgeTrigger_def run_simps setUint16_def Int8Array_from_def
      replicate_2 case_prod_beta del: of_int_sint)

text \<open>
  Claim C6. Bit \<open>n\<close> of the trigger-type word is set exactly where the claim puts it: bit
  12 is \<open>slope & 1\<close> in both modes; in SINGLE mode bit 8 is \<open>type & 1\<close>, bit 14 is
  \<open>(type >> 1) & 1\<close>, and bit 0 is set for the external source, bit 13 is \<open>source & 1\<close>
  otherwise; in ALTERNATE mode bit 15 is set, bit 13 is \<open>type & 1\<close>, bit 8 is
  \<open>(type >> 1) & 1\<close> and bit 14 is \<open>source & 1\<close>; no other bit is set. The word for SINGLE,
  EDGE, CH1, RISING is 0. When the device acknowledges both writes, the second write of
  \<open>configureEdgeTrigger\<close> goes to the trigger register \<open>0x24\<close> and carries two bytes that
  read back, as a little-endian 16-bit value, as the word.
\<close>

theorem triggerTypeBitField_as_specified:
  "(bit (triggerTypeBitField options) n \<longleftrightarrow>
       (n = 12 \<and> odd (TriggerSlope_value (slope options)))
     \<or> (mode options = SINGLE \<and>
          (n = 8 \<and> odd (TriggerType_value (type options))
         \<or> n = 14 \<and> odd (TriggerType_value (type options) div 2)
         \<or> n = 0 \<and> source options = EXTERNAL
         \<or> n = 13 \<and> source options \<noteq> EXTERNAL
                  \<and> odd (TriggerSource_value (source options))))
     \<or> (mode options = ALTERNATE \<and>
          (n = 15
         \<or> n = 13 \<and> odd (TriggerType_value (type options))
         \<or> n = 8 \<and> odd (TriggerType_value (type options) div 2)
         \<or> n = 14 \<and> odd (TriggerSource_value (source options)))))
   \<and> triggerTypeBitField
         \<lparr>source = TriggerSource.CH1, mode = SINGLE, type = EDGE, slope = RISING,
          holdoffSeconds = h, triggerLevel = l\<rparr> = 0x0000
   \<and> TRIGGER = 0x24
   \<and> (outEndpoint s = Some eo \<and> inEndpoint s = Some ei \<and> responses s = r1 # r2 # rest
        \<and> getUint8 r1 0 = Inr AFFIRMATIVE_RESPONSE \<and> getUint8 r2 0 = Inr AFFIRMATIVE_RESPONSE
      \<longrightarrow> (\<exists>levels word.
             configureEdgeTrigger options s =
               (Inr (), s\<lparr>responses := rest,
                  trace := trace s @
                    [TransferOut (endpointNumber eo)
                       (frame (TRIGGER_EDGE_LEVEL_ADDRESS (source options)) levels),
                     TransferIn (endpointNumber ei) 5 r1,
                     TransferOut (endpointNumber eo) (frame TRIGGER word),
                     TransferIn (endpointNumber ei) 5 r2]\<rparr>)
           \<and> length word = 2
           \<and> getUint16 word 0 True = Inr (unat (triggerTypeBitField options))))"
proof -
  have written: "getUint16 [word_of_int (sint (triggerTypeBitField options)),
                    word_of_int (sint (triggerTypeBitField options) div 256)] 0 True
                 = Inr (unat (triggerTypeBitField options))"
    using triggerTypeBitField_lt[of options] by (simp only: sint_bytes mod_less)
  have zero: "triggerTypeBitField
         \<lparr>source = TriggerSource.CH1, mode = SINGLE, type = EDGE, slope = RISING,
          holdoffSeconds = h, triggerLevel = l\<rparr> = 0"
    by (simp add: triggerTypeBitField_def)
  have run: "outEndpoint s = Some eo \<and> inEndpoint s = Some ei \<and> responses s = r1 # r2 # rest
        \<and> getUint8 r1 0 = Inr AFFIRMATIVE_RESPONSE \<and> getUint8 r2 0 = Inr AFFIRMATIVE_RESPONSE
      \<longrightarrow> (\<exists>levels word.
             configureEdgeTrigger options s =
               (Inr (), s\<lparr>responses := rest,
                  trace := trace s @
                    [TransferOut (endpointNumber eo)
                       (frame (TRIGGER_EDGE_LEVEL_ADDRESS (source options)) levels),
                     TransferIn (endpointNumber ei) 5 r1,
                     TransferOut (endpointNumber eo) (frame TRIGGER word),
                     TransferIn (endpointNumber ei) 5 r2]\<rparr>)
           \<and> length word = 2
           \<and> getUint16 word 0 True = Inr (unat (triggerTypeBitField options)))"
  proof (intro impI, elim conjE)
    assume a: "outEndpoint s = Some eo" "inEndpoint s = Some ei"
      "responses s = r1 # r2 # rest"
      "getUint8 r1 0 = Inr AFFIRMATIVE_RESPONSE" "getUint8 r2 0 = Inr AFFIRMATIVE_RESPONSE"
    show "\<exists>levels word.
             configureEdgeTrigger options s =
               (Inr (), s\<lparr>responses := rest,
                  trace := trace s @
                    [TransferOut (endpointNumber eo)
                       (frame (TRIGGER_EDGE_LEVEL_ADDRESS (source options)) levels),
                     TransferIn (endpointNumber ei) 5 r1,
                     TransferOut (endpointNumber eo) (frame TRIGGER word),
                     TransferIn (endpointNumber ei) 5 r2]\<rparr>)
           \<and> length word = 2
           \<and> getUint16 word 0 True = Inr (unat (triggerTypeBitField options))"
      using configureEdgeTrigger_run[OF a, of options] written
      by (intro exI conjI) (assumption, simp, assumption)
  qed
  show ?thesis
    using triggerTypeBitField_bits[of options n] zero run
    by (simp only: TRIGGER_def simp_thms)
qed

theorem triggerTypeBitField_as_specified_witness:
  "bit (triggerTypeBitField
          \<lparr>source = EXTERNAL, mode = SINGLE, type = EDGE, slope = FALLING,
           holdoffSeconds = 0, triggerLevel = 36\<rparr>) 12
   \<and> (\<exists>levels word.
         configureEdgeTrigger
           \<lparr>source = EXTERNAL, mode = SINGLE, type = EDGE, slope = FALLING,
            holdoffSeconds = 0, triggerLevel = 36\<rparr>
           (example_session [[0x53, 0, 0, 0, 0], [0x53, 1, 2, 3, 4]]) =
           (Inr (), (example_session [[0x53, 0, 0, 0, 0], [0x53, 1, 2, 3, 4]])
              \<lparr>responses := [],
               trace := trace (example_session [[0x53, 0, 0, 0, 0], [0x53, 1, 2, 3, 4]]) @
                 [TransferOut 3 (frame 0x10c levels),
                  TransferIn 1 5 [0x53, 0, 0, 0, 0],
                  TransferOut 3 (frame 0x24 word),
                  TransferIn 1 5 [0x53, 1, 2, 3, 4]]\<rparr>)
         \<and> length word = 2
         \<and> getUint16 word 0 True = Inr 0x1001)"
  using triggerTypeBitField_as_specified
    [of "\<lparr>source = EXTERNAL, mode = SINGLE, type = EDGE, slope = FALLING,
           holdoffSeconds = 0, triggerLevel = 36\<rparr>" 12 0 0
        "example_session [[0x53, 0, 0, 0, 0], [0x53, 1, 2, 3, 4]]"
        "\<lparr>endpointNumber = 3, direction = DirOut\<rparr>"
        "\<lparr>endpointNumber = 1, direction = DirIn\<rparr>"
        "[0x53, 0, 0, 0, 0]" "[0x53, 1, 2, 3, 4]" "[]"]
  by (simp add: example_session_eq getUint8_def AFFIRMATIVE_RESPONSE_def TRIGGER_def
      EXT_TRIGGER_EDGE_LEVEL_def triggerTypeBitField_def)

section \<open>Channel configuration\<close>

lemma Channel_value_less: "Channel_value c < 2"
  by (cases c) simp_all

lemma Voltage_value_less: "Voltage_value v < 10"
  by (cases v) simp_all

lemma ndarray_get_zeroed:
  assumes "j < 3"
  shows "ndarray_get (replicate 60 0) (Channel_value c) j (Voltage_value v) = 0"
proof -
  have "30 * Channel_value c + 10 * j + Voltage_value v < 60"
    using assms Channel_value_less[of c] Voltage_value_less[of v] by linarith
  then show ?thesis by (simp add: ndarray_get_def)
qed

text \<open>
  Claim C2, as the code has it. \<open>configureChannel\<close> checks no precondition. On a session
  whose calibration table is still as the constructor made it (60 zero cells), with both
  endpoints known and a device that acknowledges the three writes, it succeeds: it writes
  the channel bit field, then the gain \<open>0\<close> (bytes \<open>00 00\<close>) to the gain register, then the
  zero offset \<open>0 - floor(0 / 100) = 0\<close> to the offset register.
\<close>

theorem configureChannel_unpopulated_writes_zero_gain:
  assumes "calibrationData s = replicate 60 0"
    and "outEndpoint s = Some eo" and "inEndpoint s = Some ei"
    and "responses s = r1 # r2 # r3 # rest"
    and "getUint8 r1 0 = Inr AFFIRMATIVE_RESPONSE"
    and "getUint8 r2 0 = Inr AFFIRMATIVE_RESPONSE"
    and "getUint8 r3 0 = Inr AFFIRMATIVE_RESPONSE"
  shows
    "configureChannel options s =
       (Inr (), s\<lparr>responses := rest,
          trace := trace s @
            [TransferOut (endpointNumber eo)
               (frame (CHANNEL_ADDRESS (channel options))
                  [word_of_nat ((if on options then 128 else 0)
                                + 32 * Coupling_value (coupling options) + 2)]),
             TransferIn (endpointNumber ei) 5 r1,
             TransferOut (endpointNumber eo)
               (frame (VOLT_GAIN_ADDRESS (channel options)) [0, 0]),
             TransferIn (endpointNumber ei) 5 r2,
             TransferOut (endpointNumber eo)
               (frame (ZERO_OFFSET_ADDRESS (channel options)) [0, 0]),
             TransferIn (endpointNumber ei) 5 r3]\<rparr>)"
  using assms
  by (cases "on options"; cases "coupling options")
    (simp_all add: configureChannel_def run_simps setUint16_def Uint8Array_from_def
      replicate_2 Let_def calibrationData_get_def ndarray_get_zeroed)

theorem configureChannel_unpopulated_writes_zero_gain_witness:
  "configureChannel \<lparr>channel = Channel.CH1, on = True, voltage = V2, coupling = DC\<rparr>
       (example_session [[0x53, 0, 0, 0, 0], [0x53, 0, 0, 0, 0], [0x53, 0, 0, 0, 0]]) =
       (Inr (), (example_session [[0x53, 0, 0, 0, 0], [0x53, 0, 0, 0, 0], [0x53, 0, 0, 0, 0]])
          \<lparr>responses := [],
           trace :=
             trace (example_session [[0x53, 0, 0, 0, 0], [0x53, 0, 0, 0, 0], [0x53, 0, 0, 0, 0]]) @
             [TransferOut 3 (frame 0x111 [0xa2]),
              TransferIn 1 5 [0x53, 0, 0, 0, 0],
              TransferOut 3 (frame 0x116 [0, 0]),
              TransferIn 1 5 [0x53, 0, 0, 0, 0],
              TransferOut 3 (frame 0x10a [0, 0]),
              TransferIn 1 5 [0x53, 0, 0, 0, 0]]\<rparr>)"
  using configureChannel_unpopulated_writes_zero_gain
    [of "example_session [[0x53, 0, 0, 0, 0], [0x53, 0, 0, 0, 0], [0x53, 0, 0, 0, 0]]"
        "\<lparr>endpointNumber = 3, direction = DirOut\<rparr>"
        "\<lparr>endpointNumber = 1, direction = DirIn\<rparr>"
        "[0x53, 0, 0, 0, 0]" "[0x53, 0, 0, 0, 0]" "[0x53, 0, 0, 0, 0]" "[]"
        "\<lparr>channel = Channel.CH1, on = True, voltage = V2, coupling = DC\<rparr>"]
  by (simp add: example_session_eq getUint8_def AFFIRMATIVE_RESPONSE_def
      Address_CH1_def CH1_VOLT_GAIN_def CH1_ZERO_OFFSET_def)

text \<open>
  Claim C2 as stated fails. A session is constructed and opened, the flash is never read,
  and channel 1 is configured against a device that acknowledges every write: the call
  returns normally, and the second write is the frame \<open>16 01 00 00 02 00 00\<close>, the gain
  register \<open>0x116\<close> set to the zero of the unpopulated table.
\<close>

theorem configureChannel_before_readFlash_counterexample:
  "fst (configureChannel \<lparr>channel = Channel.CH1, on = True, voltage = V2, coupling = DC\<rparr>
         (snd (open_device (constructor example_endpoints
            [[0x56, 0, 0, 0, 0], [0x53, 0, 0, 0, 0], [0x53, 0, 0, 0, 0], [0x53, 0, 0, 0, 0]]))))
     = Inr ()
   \<and> trace (snd (configureChannel
         \<lparr>channel = Channel.CH1, on = True, voltage = V2, coupling = DC\<rparr>
         (snd (open_device (constructor example_endpoints
            [[0x56, 0, 0, 0, 0], [0x53, 0, 0, 0, 0], [0x53, 0, 0, 0, 0], [0x53, 0, 0, 0, 0]])))))
     = [TransferOut 3 [0x01, 0x40, 0, 0, 1, 0x56], TransferIn 1 5 [0x56, 0, 0, 0, 0],
        TransferOut 3 [0x11, 0x01, 0, 0, 1, 0xa2], TransferIn 1 5 [0x53, 0, 0, 0, 0],
        TransferOut 3 [0x16, 0x01, 0, 0, 2, 0, 0], TransferIn 1 5 [0x53, 0, 0, 0, 0],
        TransferOut 3 [0x0a, 0x01, 0, 0, 2, 0, 0], TransferIn 1 5 [0x53, 0, 0, 0, 0]]"
  by (simp add: open_device_example configureChannel_def run_simps setUint16_def
      Uint8Array_from_def replicate_2 Let_def calibrationData_get_def getUint8_def
      AFFIRMATIVE_RESPONSE_def frame_def Address_CH1_def CH1_VOLT_GAIN_def
      CH1_ZERO_OFFSET_def ndarray_get_def)

section \<open>The acquisition loop\<close>

lemma sampleCycle_run:
  assumes "outEndpoint s = Some eo" "inEndpoint s = Some ei"
    and "responses s = a1 # a2 # f # rest"
    and "affirmative a1" "affirmative a2"
  shows "sampleCycle s =
     (Inr (), s\<lparr>responses := rest,
        trace := trace s @ cycle_events (endpointNumber eo) (endpointNumber ei) (a1, a2, f)\<rparr>)"
  using assms
  by (simp add: sampleCycle_def run_simps transferIn_def callGotData_def Uint8Array_from_def
      TRIGGER_D_def DATA_FINISHED_def cycle_events_def affirmative_def)

lemma gotDataCount_append: "gotDataCount (xs @ ys) = gotDataCount xs + gotDataCount ys"
  by (induction xs rule: gotDataCount.induct) simp_all




lemma calls_return: "calls_at_most 0 (return_io r)"
  by (simp add: calls_at_most_def return_io_def)

lemma calls_throw: "calls_at_most 0 (throw_io r)"
  by (simp add: calls_at_most_def throw_io_def)

















text \<open>
  Claim C3, as the code has it. In a cycle of the loop whose two register writes are
  acknowledged, the third write is the data request: register \<open>0x1000\<close> with the payload
  \<open>05 04\<close>. What is read next is the sample frame of up to 5211 bytes, whatever it
  holds: no status is compared, and the frame goes to the callback as it is. The loop
  then goes on with the next value of its counter.
\<close>

theorem sampleCycle_data_request:
  assumes "outEndpoint s = Some eo" and "inEndpoint s = Some ei"
    and "responses s = a1 # a2 # f # rest"
    and "affirmative a1" and "affirmative a2" and "i < 5000"
  shows "sampleCycle s =
     (Inr (), s\<lparr>responses := rest,
        trace := trace s @
          [TransferOut (endpointNumber eo) (frame 0x1 [0x00]),
           TransferIn (endpointNumber ei) 5 a1,
           TransferOut (endpointNumber eo) (frame 0x7a [0x00]),
           TransferIn (endpointNumber ei) 5 a2,
           TransferOut (endpointNumber eo) (frame 0x1000 [0x05, 0x04]),
           TransferIn (endpointNumber ei) 5211 f,
           GotData f]\<rparr>)
   \<and> sampleLoop i s =
       sampleLoop (i + 1)
         (s\<lparr>responses := rest,
            trace := trace s @
              [TransferOut (endpointNumber eo) (frame 0x1 [0x00]),
               TransferIn (endpointNumber ei) 5 a1,
               TransferOut (endpointNumber eo) (frame 0x7a [0x00]),
               TransferIn (endpointNumber ei) 5 a2,
               TransferOut (endpointNumber eo) (frame 0x1000 [0x05, 0x04]),
               TransferIn (endpointNumber ei) 5211 f,
               GotData f]\<rparr>)"
proof -
  have cyc: "sampleCycle s =
     (Inr (), s\<lparr>responses := rest,
        trace := trace s @
          [TransferOut (endpointNumber eo) (frame 0x1 [0x00]),
           TransferIn (endpointNumber ei) 5 a1,
           TransferOut (endpointNumber eo) (frame 0x7a [0x00]),
           TransferIn (endpointNumber ei) 5 a2,
           TransferOut (endpointNumber eo) (frame 0x1000 [0x05, 0x04]),
           TransferIn (endpointNumber ei) 5211 f,
           GotData f]\<rparr>)"
    using sampleCycle_run[OF assms(1-5)] by (simp add: cycle_events_def)
  have "sampleLoop i s =
          (case sampleCycle s of (Inl e, s') \<Rightarrow> (Inl e, s')
           | (Inr _, s') \<Rightarrow> sampleLoop (i + 1) s')"
    using assms(6) by (subst sampleLoop.simps) simp
  then show ?thesis
    unfolding cyc by simp
qed

theorem sampleCycle_data_request_witness:
  "sampleCycle (example_session [[0x53, 0, 0, 0, 0], [0x53, 0, 0, 0, 0], [1, 2, 3]]) =
     (Inr (), (example_session [[0x53, 0, 0, 0, 0], [0x53, 0, 0, 0, 0], [1, 2, 3]])
        \<lparr>responses := [],
         trace := trace (example_session [[0x53, 0, 0, 0, 0], [0x53, 0, 0, 0, 0], [1, 2, 3]]) @
           [TransferOut 3 (frame 0x1 [0x00]), TransferIn 1 5 [0x53, 0, 0, 0, 0],
            TransferOut 3 (frame 0x7a [0x00]), TransferIn 1 5 [0x53, 0, 0, 0, 0],
            TransferOut 3 (frame 0x1000 [0x05, 0x04]), TransferIn 1 5211 [1, 2, 3],
            GotData [1, 2, 3]]\<rparr>)"
  using sampleCycle_data_request
    [of "example_session [[0x53, 0, 0, 0, 0], [0x53, 0, 0, 0, 0], [1, 2, 3]]"
        "\<lparr>endpointNumber = 3, direction = DirOut\<rparr>"
        "\<lparr>endpointNumber = 1, direction = DirIn\<rparr>"
        "[0x53, 0, 0, 0, 0]" "[0x53, 0, 0, 0, 0]" "[1, 2, 3]" "[]" 0]
  by (simp add: example_session_eq affirmative_def getUint8_def AFFIRMATIVE_RESPONSE_def
    del: sampleLoop.simps)

text \<open>
  Claim C3 as stated fails: the payload of the data request of a cycle is \<open>05 04\<close>; the
  frame with payload \<open>05 05\<close> is never written.
\<close>

theorem sampleCycle_payload_counterexample:
  "trace (snd (sampleCycle (example_session [[0x53, 0, 0, 0, 0], [0x53, 0, 0, 0, 0], [1, 2, 3]])))
     = [TransferOut 3 [0x01, 0x40, 0, 0, 1, 0x56], TransferIn 1 5 [0x56, 0, 0, 0, 0],
        TransferOut 3 [0x01, 0, 0, 0, 1, 0], TransferIn 1 5 [0x53, 0, 0, 0, 0],
        TransferOut 3 [0x7a, 0, 0, 0, 1, 0], TransferIn 1 5 [0x53, 0, 0, 0, 0],
        TransferOut 3 [0x00, 0x10, 0, 0, 2, 0x05, 0x04], TransferIn 1 5211 [1, 2, 3],
        GotData [1, 2, 3]]
   \<and> packCommand 0x1000 [0x05, 0x05] = Inr [0x00, 0x10, 0, 0, 2, 0x05, 0x05]
   \<and> TransferOut 3 [0x00, 0x10, 0, 0, 2, 0x05, 0x05]
       \<notin> set (trace (snd (sampleCycle
              (example_session [[0x53, 0, 0, 0, 0], [0x53, 0, 0, 0, 0], [1, 2, 3]]))))"
proof -
  have "sampleCycle (example_session [[0x53, 0, 0, 0, 0], [0x53, 0, 0, 0, 0], [1, 2, 3]]) =
     (Inr (), (example_session [[0x53, 0, 0, 0, 0], [0x53, 0, 0, 0, 0], [1, 2, 3]])
        \<lparr>responses := [],
         trace := trace (example_session [[0x53, 0, 0, 0, 0], [0x53, 0, 0, 0, 0], [1, 2, 3]]) @
           cycle_events 3 1 ([0x53, 0, 0, 0, 0], [0x53, 0, 0, 0, 0], [1, 2, 3])\<rparr>)"
    using sampleCycle_run
    [of "example_session [[0x53, 0, 0, 0, 0], [0x53, 0, 0, 0, 0], [1, 2, 3]]"
        "\<lparr>endpointNumber = 3, direction = DirOut\<rparr>"
        "\<lparr>endpointNumber = 1, direction = DirIn\<rparr>"
        "[0x53, 0, 0, 0, 0]" "[0x53, 0, 0, 0, 0]" "[1, 2, 3]" "[]"]
    by (simp add: example_session_eq affirmative_def getUint8_def AFFIRMATIVE_RESPONSE_def)
  then show ?thesis
    by (simp add: example_session_eq cycle_events_def frame_def packCommand_frame)
qed




lemma quiet_transferIn:
  "gotDataCount (trace (snd (transferIn n s))) = gotDataCount (trace s)"
  by (simp add: transferIn_def gotDataCount_append split: option.split list.split)























section \<open>Reading the flash dump\<close>

lemma getUint16_le_cell:
  "off + 2 \<le> length dv \<Longrightarrow>
   getUint16 dv off True = Inr (unat (dv ! off) + 256 * unat (dv ! (off + 1)))"
  by (simp add: getUint16_def)

lemma unat_flash_cell:
  "unat (flash_cell dv off) = unat (dv ! off) + 256 * unat (dv ! (off + 1))"
proof -
  have "unat (dv ! off) < 256" "unat (dv ! (off + 1)) < 256"
    using unsigned_less[of "dv ! off"] unsigned_less[of "dv ! (off + 1)"] by simp_all
  then have "unat (dv ! off) + 256 * unat (dv ! (off + 1)) < 65536" by linarith
  then show ?thesis
    by (simp only: flash_cell_def unat_of_nat) simp
qed

lemma voltbaseLoop_run:
  assumes "v0 \<le> 10" and "off + 2 * (10 - v0) \<le> length dv"
  shows "\<exists>c'. voltbaseLoop dv ci ch v0 off s =
            (Inr (off + 2 * (10 - v0)), s\<lparr>calibrationData := c'\<rparr>)
        \<and> length c' = length (calibrationData s)
        \<and> (\<forall>j < length c'. c' ! j =
              (if 30 * ch + 10 * ci + v0 \<le> j \<and> j < 30 * ch + 10 * ci + 10
               then flash_cell dv (off + 2 * (j - (30 * ch + 10 * ci + v0)))
               else calibrationData s ! j))"
  using assms
proof (induction "10 - v0" arbitrary: v0 off s)
  case 0
  then have "v0 = 10" by simp
  then have "voltbaseLoop dv ci ch v0 off s = (Inr off, s)"
    by (subst voltbaseLoop.simps) (simp add: VOLTBASE_COUNT_def)
  then show ?case using \<open>v0 = 10\<close>
    by (intro exI[of _ "calibrationData s"]) auto
next
  case (Suc n)
  then have v0: "v0 < 10" by simp
  let ?s1 = "s\<lparr>calibrationData :=
      (calibrationData s)[30 * ch + 10 * ci + v0 := flash_cell dv off]\<rparr>"
  have get: "getUint16 dv off True = Inr (unat (dv ! off) + 256 * unat (dv ! (off + 1)))"
    using Suc.prems v0 by (intro getUint16_le_cell) simp
  have step: "voltbaseLoop dv ci ch v0 off s = voltbaseLoop dv ci ch (v0 + 1) (off + 2) ?s1"
    using v0 get
    by (subst voltbaseLoop.simps) (simp add: VOLTBASE_COUNT_def ndarray_set_def flash_cell_def)
  have "\<exists>c'. voltbaseLoop dv ci ch (v0 + 1) (off + 2) ?s1 =
            (Inr (off + 2 + 2 * (10 - (v0 + 1))), ?s1\<lparr>calibrationData := c'\<rparr>)
        \<and> length c' = length (calibrationData ?s1)
        \<and> (\<forall>j < length c'. c' ! j =
              (if 30 * ch + 10 * ci + (v0 + 1) \<le> j \<and> j < 30 * ch + 10 * ci + 10
               then flash_cell dv (off + 2 + 2 * (j - (30 * ch + 10 * ci + (v0 + 1))))
               else calibrationData ?s1 ! j))"
    using Suc.hyps(2) Suc.prems v0 by (intro Suc.hyps(1)) simp_all
  then obtain c' where c': "voltbaseLoop dv ci ch (v0 + 1) (off + 2) ?s1 =
            (Inr (off + 2 + 2 * (10 - (v0 + 1))), ?s1\<lparr>calibrationData := c'\<rparr>)"
        "length c' = length (calibrationData ?s1)"
        "\<And>j. j < length c' \<Longrightarrow> c' ! j =
              (if 30 * ch + 10 * ci + (v0 + 1) \<le> j \<and> j < 30 * ch + 10 * ci + 10
               then flash_cell dv (off + 2 + 2 * (j - (30 * ch + 10 * ci + (v0 + 1))))
               else calibrationData ?s1 ! j)"
    by blast
  have off: "off + 2 + 2 * (10 - (v0 + 1)) = off + 2 * (10 - v0)" using v0 by simp
  have res: "voltbaseLoop dv ci ch v0 off s =
            (Inr (off + 2 * (10 - v0)), s\<lparr>calibrationData := c'\<rparr>)"
    unfolding step c'(1) off by simp
  have len: "length c' = length (calibrationData s)" using c'(2) by simp
  have pt: "c' ! j =
              (if 30 * ch + 10 * ci + v0 \<le> j \<and> j < 30 * ch + 10 * ci + 10
               then flash_cell dv (off + 2 * (j - (30 * ch + 10 * ci + v0)))
               else calibrationData s ! j)" if j: "j < length c'" for j
  proof (cases "j = 30 * ch + 10 * ci + v0")
    case True
    then show ?thesis using c'(3)[OF j] j len v0 by simp
  next
    case False
    have "flash_cell dv (off + 2 + 2 * (j - (30 * ch + 10 * ci + (v0 + 1))))
          = flash_cell dv (off + 2 * (j - (30 * ch + 10 * ci + v0)))"
      if "30 * ch + 10 * ci + (v0 + 1) \<le> j"
      using that by (intro arg_cong[where f = "flash_cell dv"]) simp
    then show ?thesis using c'(3)[OF j] False by auto
  qed
  show ?case using res len pt by blast
qed


lemma channelLoop_run:
  assumes "off + 40 \<le> length dv"
  shows "\<exists>c'. channelLoop dv ci 0 off s = (Inr (off + 40), s\<lparr>calibrationData := c'\<rparr>)
        \<and> length c' = length (calibrationData s)
        \<and> (\<forall>j < length c'. c' ! j =
              (if 30 + 10 * ci \<le> j \<and> j < 30 + 10 * ci + 10
               then flash_cell dv (off + 20 + 2 * (j - (30 + 10 * ci)))
               else if 10 * ci \<le> j \<and> j < 10 * ci + 10
               then flash_cell dv (off + 2 * (j - 10 * ci))
               else calibrationData s ! j))"
proof -
  obtain c1 where c1:
    "voltbaseLoop dv ci 0 0 off s = (Inr (off + 20), s\<lparr>calibrationData := c1\<rparr>)"
    "length c1 = length (calibrationData s)"
    "\<And>j. j < length c1 \<Longrightarrow> c1 ! j =
        (if 10 * ci \<le> j \<and> j < 10 * ci + 10
         then flash_cell dv (off + 2 * (j - 10 * ci)) else calibrationData s ! j)"
    using voltbaseLoop_run[of 0 off dv ci 0 s] assms by auto
  obtain c2 where c2:
    "voltbaseLoop dv ci 1 0 (off + 20) (s\<lparr>calibrationData := c1\<rparr>)
       = (Inr (off + 40), s\<lparr>calibrationData := c2\<rparr>)"
    "length c2 = length c1"
    "\<And>j. j < length c2 \<Longrightarrow> c2 ! j =
        (if 30 + 10 * ci \<le> j \<and> j < 30 + 10 * ci + 10
         then flash_cell dv (off + 20 + 2 * (j - (30 + 10 * ci))) else c1 ! j)"
    using voltbaseLoop_run[of 0 "off + 20" dv ci 1 "s\<lparr>calibrationData := c1\<rparr>"] assms
    by auto
  have "channelLoop dv ci 2 (off + 40) (s\<lparr>calibrationData := c2\<rparr>)
          = (Inr (off + 40), s\<lparr>calibrationData := c2\<rparr>)"
    by (subst channelLoop.simps) (simp add: CHANNEL_COUNT_def numeral_2_eq_2)
  then have "channelLoop dv ci 1 (off + 20) (s\<lparr>calibrationData := c1\<rparr>)
          = (Inr (off + 40), s\<lparr>calibrationData := c2\<rparr>)"
    using c2(1) by (subst channelLoop.simps) (simp add: CHANNEL_COUNT_def numeral_2_eq_2)
  then have run: "channelLoop dv ci 0 off s = (Inr (off + 40), s\<lparr>calibrationData := c2\<rparr>)"
    using c1(1) by (subst channelLoop.simps) (simp add: CHANNEL_COUNT_def numeral_2_eq_2)
  have "c2 ! j =
              (if 30 + 10 * ci \<le> j \<and> j < 30 + 10 * ci + 10
               then flash_cell dv (off + 20 + 2 * (j - (30 + 10 * ci)))
               else if 10 * ci \<le> j \<and> j < 10 * ci + 10
               then flash_cell dv (off + 2 * (j - 10 * ci))
               else calibrationData s ! j)" if "j < length c2" for j
    using c2(3)[OF that] c1(3)[of j] that c2(2) by simp
  then show ?thesis using run c1(2) c2(2) by auto
qed

lemma calibrationInfoLoop_run:
  assumes "126 \<le> length dv" and "length (calibrationData s) = 60"
  shows "\<exists>c'. calibrationInfoLoop dv 0 6 s = (Inr 126, s\<lparr>calibrationData := c'\<rparr>)
        \<and> length c' = 60
        \<and> (\<forall>ch ci v. ch < 2 \<and> ci < 3 \<and> v < 10 \<longrightarrow>
              c' ! (30 * ch + 10 * ci + v) = flash_cell dv (6 + 2 * (20 * ci + 10 * ch + v)))"
proof -
  obtain c1 where c1:
    "channelLoop dv 0 0 6 s = (Inr 46, s\<lparr>calibrationData := c1\<rparr>)"
    "length c1 = 60"
    "\<And>j. j < 60 \<Longrightarrow> c1 ! j =
        (if 30 \<le> j \<and> j < 40 then flash_cell dv (26 + 2 * (j - 30))
         else if j < 10 then flash_cell dv (6 + 2 * j)
         else calibrationData s ! j)"
    using channelLoop_run[of 6 dv 0 s] assms by auto
  obtain c2 where c2:
    "channelLoop dv 1 0 46 (s\<lparr>calibrationData := c1\<rparr>) = (Inr 86, s\<lparr>calibrationData := c2\<rparr>)"
    "length c2 = 60"
    "\<And>j. j < 60 \<Longrightarrow> c2 ! j =
        (if 40 \<le> j \<and> j < 50 then flash_cell dv (66 + 2 * (j - 40))
         else if 10 \<le> j \<and> j < 20 then flash_cell dv (46 + 2 * (j - 10))
         else c1 ! j)"
    using channelLoop_run[of 46 dv 1 "s\<lparr>calibrationData := c1\<rparr>"] assms c1(2) by auto
  obtain c3 where c3:
    "channelLoop dv 2 0 86 (s\<lparr>calibrationData := c2\<rparr>) = (Inr 126, s\<lparr>calibrationData := c3\<rparr>)"
    "length c3 = 60"
    "\<And>j. j < 60 \<Longrightarrow> c3 ! j =
        (if 50 \<le> j \<and> j < 60 then flash_cell dv (106 + 2 * (j - 50))
         else if 20 \<le> j \<and> j < 30 then flash_cell dv (86 + 2 * (j - 20))
         else c2 ! j)"
    using channelLoop_run[of 86 dv 2 "s\<lparr>calibrationData := c2\<rparr>"] assms c2(2) by auto
  have "calibrationInfoLoop dv 3 126 (s\<lparr>calibrationData := c3\<rparr>)
          = (Inr 126, s\<lparr>calibrationData := c3\<rparr>)"
    by (subst calibrationInfoLoop.simps) (simp add: CALIBRATION_INFO_COUNT_def numeral_2_eq_2 numeral_3_eq_3)
  then have "calibrationInfoLoop dv 2 86 (s\<lparr>calibrationData := c2\<rparr>)
          = (Inr 126, s\<lparr>calibrationData := c3\<rparr>)"
    using c3(1) by (subst calibrationInfoLoop.simps) (simp add: CALIBRATION_INFO_COUNT_def numeral_2_eq_2 numeral_3_eq_3)
  then have "calibrationInfoLoop dv 1 46 (s\<lparr>calibrationData := c1\<rparr>)
          = (Inr 126, s\<lparr>calibrationData := c3\<rparr>)"
    using c2(1) by (subst calibrationInfoLoop.simps) (simp add: CALIBRATION_INFO_COUNT_def numeral_2_eq_2 numeral_3_eq_3)
  then have run: "calibrationInfoLoop dv 0 6 s = (Inr 126, s\<lparr>calibrationData := c3\<rparr>)"
    using c1(1) by (subst calibrationInfoLoop.simps) (simp add: CALIBRATION_INFO_COUNT_def numeral_2_eq_2 numeral_3_eq_3)
  have cell: "c3 ! (30 * ch + 10 * ci + v) = flash_cell dv (6 + 2 * (20 * ci + 10 * ch + v))"
    if "ch < 2" "ci < 3" "v < 10" for ch ci v
  proof -
    have ch: "ch = 0 \<or> ch = 1" using that(1) by linarith
    have ci: "ci = 0 \<or> ci = 1 \<or> ci = 2" using that(2) by linarith
    show ?thesis
      using ch ci that(3) c1(3)[of "30 * ch + 10 * ci + v"] c2(3)[of "30 * ch + 10 * ci + v"]
        c3(3)[of "30 * ch + 10 * ci + v"]
      by (elim disjE) (simp_all add: algebra_simps)
  qed
  show ?thesis using run c3(2) cell by blast
qed

lemma readFlash_received:
  assumes "outEndpoint s = Some eo" and "inEndpoint s = Some ei" and "responses s = dump # rest"
  shows "readFlash s =
     bind_io (lift_io (getUint16 dump 0 False)) (\<lambda>header.
     if header \<noteq> FLASH_HEADER then throw_io (InvalidFlashHeader header) else
     bind_io (lift_io (getUint32 dump 2 True)) (\<lambda>version.
     if version \<noteq> 2 then throw_io (UnsupportedFlashVersion version) else
     then_io (calibrationInfoLoop dump 0 6)
    (bind_io (lift_io (Uint8Array_view dump 207 4)) (\<lambda>firmwareVersionBytes.
     then_io (\<lambda>s. (Inr (), s\<lparr>firmwareVersion := String_fromCharCode firmwareVersionBytes\<rparr>))
    (bind_io (lift_io (Uint8Array_view dump 212 15)) (\<lambda>serialNumberBytes.
     then_io (\<lambda>s. (Inr (), s\<lparr>serialNumber := String_fromCharCode serialNumberBytes\<rparr>))
       (return_io dump)))))))
     (s\<lparr>responses := rest,
        trace := trace s @ [TransferOut (endpointNumber eo) (frame 0x01b0 [0x1]),
                            TransferIn (endpointNumber ei) 2002 dump]\<rparr>)"
  using assms
  by (simp add: readFlash_def then_io_def bind_io_def[of "sendCommand _ _"]
      bind_io_def[of "transferIn _"] sendCommand_ok transferIn_def Uint8Array_from_def)

lemma readFlash_success:
  assumes "outEndpoint s = Some eo" and "inEndpoint s = Some ei" and "responses s = dump # rest"
    and "getUint16 dump 0 False = Inr FLASH_HEADER" and "getUint32 dump 2 True = Inr 2"
    and "227 \<le> length dump" and "length (calibrationData s) = 60"
  shows "\<exists>c'. readFlash s =
      (Inr dump,
       s\<lparr>responses := rest,
         trace := trace s @ [TransferOut (endpointNumber eo) (frame 0x01b0 [0x1]),
                            TransferIn (endpointNumber ei) 2002 dump],
         calibrationData := c',
         firmwareVersion := String_fromCharCode (take 4 (drop 207 dump)),
         serialNumber := String_fromCharCode (take 15 (drop 212 dump))\<rparr>)
     \<and> length c' = 60
     \<and> (\<forall>ch ci v. ch < 2 \<and> ci < 3 \<and> v < 10 \<longrightarrow>
            c' ! (30 * ch + 10 * ci + v) = flash_cell dump (6 + 2 * (20 * ci + 10 * ch + v)))"
proof -
  let ?s1 = "s\<lparr>responses := rest,
        trace := trace s @ [TransferOut (endpointNumber eo) (frame 0x01b0 [0x1]),
                            TransferIn (endpointNumber ei) 2002 dump]\<rparr>"
  obtain c' where c':
    "calibrationInfoLoop dump 0 6 ?s1 = (Inr 126, ?s1\<lparr>calibrationData := c'\<rparr>)"
    "length c' = 60"
    "\<forall>ch ci v. ch < 2 \<and> ci < 3 \<and> v < 10 \<longrightarrow>
            c' ! (30 * ch + 10 * ci + v) = flash_cell dump (6 + 2 * (20 * ci + 10 * ch + v))"
    using calibrationInfoLoop_run[of dump ?s1] assms(6,7) by auto
  have "readFlash s =
      (Inr dump,
       s\<lparr>responses := rest,
         trace := trace s @ [TransferOut (endpointNumber eo) (frame 0x01b0 [0x1]),
                            TransferIn (endpointNumber ei) 2002 dump],
         calibrationData := c',
         firmwareVersion := String_fromCharCode (take 4 (drop 207 dump)),
         serialNumber := String_fromCharCode (take 15 (drop 212 dump))\<rparr>)"
    unfolding readFlash_received[OF assms(1-3)]
    using assms(4-6) c'(1)
    by (simp add: bind_io_def then_io_def lift_io_def return_io_def Uint8Array_view_def)
  then show ?thesis using c'(2,3) by blast
qed

text \<open>
  Claim C7. \<open>readFlash\<close> on a session with both endpoints, against a device that answers
  with \<open>dump\<close>. The magic constant is \<open>0xAA55\<close>, read big-endian from the first two bytes:
  any other value fails with InvalidFlashHeader. With the right magic, a little-endian
  32-bit version at offset 2 other than 2 fails with UnsupportedFlashVersion. With both
  right and a dump that reaches the end of the serial number (227 bytes), the call
  returns the dump; cell (channel \<open>ch\<close>, field \<open>ci\<close>, range \<open>v\<close>) of the table is the
  little-endian 16-bit value at offset \<open>6 + 2 * (20 * ci + 10 * ch + v)\<close>, that is, the 60
  values from offset 6 in the nesting order field, channel, range; the loops end with
  the offset \<open>6 + 2 * 60\<close>; the firmware version is the 4 bytes at offset 207 and the
  serial number the 15 bytes at offset 212, as characters.
\<close>

theorem readFlash_parses_dump:
  assumes "outEndpoint s = Some eo" and "inEndpoint s = Some ei" and "responses s = dump # rest"
  shows "FLASH_HEADER = 0xAA55
   \<and> (\<forall>header. getUint16 dump 0 False = Inr header \<and> header \<noteq> 0xAA55
        \<longrightarrow> fst (readFlash s) = Inl (InvalidFlashHeader header))
   \<and> (\<forall>version. getUint16 dump 0 False = Inr 0xAA55
          \<and> getUint32 dump 2 True = Inr version \<and> version \<noteq> 2
        \<longrightarrow> fst (readFlash s) = Inl (UnsupportedFlashVersion version))
   \<and> (getUint16 dump 0 False = Inr 0xAA55 \<and> getUint32 dump 2 True = Inr 2
        \<and> 227 \<le> length dump \<and> length (calibrationData s) = 60
      \<longrightarrow> fst (readFlash s) = Inr dump
        \<and> (\<forall>ch ci v. ch < 2 \<and> ci < 3 \<and> v < 10 \<longrightarrow>
              Inr (ndarray_get (calibrationData (snd (readFlash s))) ch ci v)
                = getUint16 dump (6 + 2 * (20 * ci + 10 * ch + v)) True)
        \<and> fst (calibrationInfoLoop dump 0 6 s) = Inr (6 + 2 * 60)
        \<and> firmwareVersion (snd (readFlash s)) = String_fromCharCode (take 4 (drop 207 dump))
        \<and> serialNumber (snd (readFlash s)) = String_fromCharCode (take 15 (drop 212 dump)))"
proof (intro conjI allI impI)
  show "FLASH_HEADER = 0xAA55" by (simp add: FLASH_HEADER_def)
next
  fix header
  assume "getUint16 dump 0 False = Inr header \<and> header \<noteq> 0xAA55"
  then show "fst (readFlash s) = Inl (InvalidFlashHeader header)"
    unfolding readFlash_received[OF assms]
    by (simp add: bind_io_def lift_io_def throw_io_def FLASH_HEADER_def)
next
  fix version
  assume "getUint16 dump 0 False = Inr 0xAA55
          \<and> getUint32 dump 2 True = Inr version \<and> version \<noteq> 2"
  then show "fst (readFlash s) = Inl (UnsupportedFlashVersion version)"
    unfolding readFlash_received[OF assms]
    by (simp add: bind_io_def lift_io_def throw_io_def FLASH_HEADER_def)
next
  assume a: "getUint16 dump 0 False = Inr 0xAA55 \<and> getUint32 dump 2 True = Inr 2
        \<and> 227 \<le> length dump \<and> length (calibrationData s) = 60"
  then obtain c' where c': "readFlash s =
      (Inr dump,
       s\<lparr>responses := rest,
         trace := trace s @ [TransferOut (endpointNumber eo) (frame 0x01b0 [0x1]),
                            TransferIn (endpointNumber ei) 2002 dump],
         calibrationData := c',
         firmwareVersion := String_fromCharCode (take 4 (drop 207 dump)),
         serialNumber := String_fromCharCode (take 15 (drop 212 dump))\<rparr>)"
     "length c' = 60"
     "\<And>ch ci v. ch < 2 \<Longrightarrow> ci < 3 \<Longrightarrow> v < 10 \<Longrightarrow>
            c' ! (30 * ch + 10 * ci + v) = flash_cell dump (6 + 2 * (20 * ci + 10 * ch + v))"
    using readFlash_success[OF assms, of ] by (auto simp add: FLASH_HEADER_def)
  show "fst (readFlash s) = Inr dump" unfolding c'(1) by simp
  show "firmwareVersion (snd (readFlash s)) = String_fromCharCode (take 4 (drop 207 dump))"
    unfolding c'(1) by simp
  show "serialNumber (snd (readFlash s)) = String_fromCharCode (take 15 (drop 212 dump))"
    unfolding c'(1) by simp
  show "fst (calibrationInfoLoop dump 0 6 s) = Inr (6 + 2 * 60)"
    using calibrationInfoLoop_run[of dump s] a by auto
  fix ch ci v :: nat
  assume b: "ch < 2 \<and> ci < 3 \<and> v < 10"
  then have "ch \<le> 1" "ci \<le> 2" "v \<le> 9" "227 \<le> length dump" using a by simp_all
  then have "6 + 2 * (20 * ci + 10 * ch + v) + 2 \<le> length dump" by simp
  then have "getUint16 dump (6 + 2 * (20 * ci + 10 * ch + v)) True
      = Inr (unat (flash_cell dump (6 + 2 * (20 * ci + 10 * ch + v))))"
    by (simp only: getUint16_le_cell unat_flash_cell)
  then show "Inr (ndarray_get (calibrationData (snd (readFlash s))) ch ci v)
                = getUint16 dump (6 + 2 * (20 * ci + 10 * ch + v)) True"
    unfolding c'(1) using c'(3)[of ch ci v] b by (simp add: ndarray_get_def)
qed

theorem readFlash_parses_dump_witness:
  "fst (readFlash (example_session [[0x55, 0xAA]])) = Inl (InvalidFlashHeader 0x55AA)
   \<and> fst (readFlash (example_session [[0xAA, 0x55, 3, 0, 0, 0]])) = Inl (UnsupportedFlashVersion 3)
   \<and> fst (readFlash (example_session [[0xAA, 0x55, 2, 0, 0, 0] @ replicate 221 0x41]))
       = Inr ([0xAA, 0x55, 2, 0, 0, 0] @ replicate 221 0x41)
   \<and> ndarray_get (calibrationData (snd (readFlash
         (example_session [[0xAA, 0x55, 2, 0, 0, 0] @ replicate 221 0x41])))) 1 2 9 = 0x4141
   \<and> firmwareVersion (snd (readFlash
         (example_session [[0xAA, 0x55, 2, 0, 0, 0] @ replicate 221 0x41]))) = ''AAAA''
   \<and> serialNumber (snd (readFlash
         (example_session [[0xAA, 0x55, 2, 0, 0, 0] @ replicate 221 0x41])))
       = ''AAAAAAAAAAAAAAA''"
proof -
  have ep: "outEndpoint (example_session rs) = Some \<lparr>endpointNumber = 3, direction = DirOut\<rparr>"
    "inEndpoint (example_session rs) = Some \<lparr>endpointNumber = 1, direction = DirIn\<rparr>"
    "length (calibrationData (example_session rs)) = 60"
    "responses (example_session rs) = rs" for rs
    by (simp_all add: example_session_eq)
  have 1: "fst (readFlash (example_session [[0x55, 0xAA]])) = Inl (InvalidFlashHeader 0x55AA)"
    using readFlash_parses_dump[OF ep(1) ep(2) ep(4), of "[0x55, 0xAA]" "[]"]
    by (simp add: getUint16_def)
  have 2: "fst (readFlash (example_session [[0xAA, 0x55, 3, 0, 0, 0]]))
             = Inl (UnsupportedFlashVersion 3)"
    using readFlash_parses_dump[OF ep(1) ep(2) ep(4), of "[0xAA, 0x55, 3, 0, 0, 0]" "[]"]
    by (simp add: getUint16_def getUint32_def)
  note t = readFlash_parses_dump[OF ep(1) ep(2) ep(4),
      of "[0xAA, 0x55, 2, 0, 0, 0] @ replicate 221 0x41" "[]"]
  have h: "getUint16 ([0xAA, 0x55, 2, 0, 0, 0] @ replicate 221 0x41) 0 False = Inr 0xAA55
        \<and> getUint32 ([0xAA, 0x55, 2, 0, 0, 0] @ replicate 221 0x41) 2 True = Inr 2
        \<and> 227 \<le> length ([0xAA, 0x55, 2, 0, 0, 0] @ replicate 221 (0x41 :: byte))
        \<and> length (calibrationData (example_session
              [[0xAA, 0x55, 2, 0, 0, 0] @ replicate 221 0x41])) = 60"
    by (simp add: getUint16_def getUint32_def ep)
  have cell: "getUint16 ([0xAA, 0x55, 2, 0, 0, 0] @ replicate 221 0x41)
                (6 + 2 * (20 * 2 + 10 * 1 + 9)) True = Inr 0x4141"
    by (simp add: getUint16_def nth_append)
  have fw: "String_fromCharCode (take 4 (drop 207 ([0xAA, 0x55, 2, 0, 0, 0] @ replicate 221 0x41)))
      = ''AAAA''"
    by code_simp
  have sn: "String_fromCharCode (take 15 (drop 212 ([0xAA, 0x55, 2, 0, 0, 0] @ replicate 221 0x41)))
      = ''AAAAAAAAAAAAAAA''"
    by code_simp
  have c: "fst (readFlash (example_session [[0xAA, 0x55, 2, 0, 0, 0] @ replicate 221 0x41]))
             = Inr ([0xAA, 0x55, 2, 0, 0, 0] @ replicate 221 0x41)
        \<and> (\<forall>ch ci v. ch < 2 \<and> ci < 3 \<and> v < 10 \<longrightarrow>
              Inr (ndarray_get (calibrationData (snd (readFlash (example_session
                     [[0xAA, 0x55, 2, 0, 0, 0] @ replicate 221 0x41])))) ch ci v)
                = getUint16 ([0xAA, 0x55, 2, 0, 0, 0] @ replicate 221 0x41)
                    (6 + 2 * (20 * ci + 10 * ch + v)) True)
        \<and> fst (calibrationInfoLoop ([0xAA, 0x55, 2, 0, 0, 0] @ replicate 221 0x41) 0 6
                 (example_session [[0xAA, 0x55, 2, 0, 0, 0] @ replicate 221 0x41]))
             = Inr (6 + 2 * 60)
        \<and> firmwareVersion (snd (readFlash (example_session
              [[0xAA, 0x55, 2, 0, 0, 0] @ replicate 221 0x41])))
             = String_fromCharCode
                 (take 4 (drop 207 ([0xAA, 0x55, 2, 0, 0, 0] @ replicate 221 0x41)))
        \<and> serialNumber (snd (readFlash (example_session
              [[0xAA, 0x55, 2, 0, 0, 0] @ replicate 221 0x41])))
             = String_fromCharCode
                 (take 15 (drop 212 ([0xAA, 0x55, 2, 0, 0, 0] @ replicate 221 0x41)))"
    using t[THEN conjunct2, THEN conjunct2, THEN conjunct2] h by (rule mp)
  have "Inr (ndarray_get (calibrationData (snd (readFlash (example_session
                     [[0xAA, 0x55, 2, 0, 0, 0] @ replicate 221 0x41])))) 1 2 9)
          = getUint16 ([0xAA, 0x55, 2, 0, 0, 0] @ replicate 221 0x41)
              (6 + 2 * (20 * 2 + 10 * 1 + 9)) True"
    using c[THEN conjunct2, THEN conjunct1, rule_format, of 1 2 9] by simp
  then have cell': "ndarray_get (calibrationData (snd (readFlash (example_session
                     [[0xAA, 0x55, 2, 0, 0, 0] @ replicate 221 0x41])))) 1 2 9 = 0x4141"
    unfolding cell by simp
  have 3: "fst (readFlash (example_session [[0xAA, 0x55, 2, 0, 0, 0] @ replicate 221 0x41]))
       = Inr ([0xAA, 0x55, 2, 0, 0, 0] @ replicate 221 0x41)
   \<and> ndarray_get (calibrationData (snd (readFlash
         (example_session [[0xAA, 0x55, 2, 0, 0, 0] @ replicate 221 0x41])))) 1 2 9 = 0x4141
   \<and> firmwareVersion (snd (readFlash
         (example_session [[0xAA, 0x55, 2, 0, 0, 0] @ replicate 221 0x41]))) = ''AAAA''
   \<and> serialNumber (snd (readFlash
         (example_session [[0xAA, 0x55, 2, 0, 0, 0] @ replicate 221 0x41])))
       = ''AAAAAAAAAAAAAAA''"
    using c cell' unfolding fw sn by blast
  show ?thesis using 1 2 3 by simp
qed

section \<open>Uploading the firmware\<close>

lemma chunks_drop:
  "off < length b \<Longrightarrow>
   chunks (drop off b) = take (min 64 (length b - off)) (drop off b) # chunks (drop (off + 64) b)"
proof -
  assume a: "off < length b"
  then obtain x xs where d: "drop off b = x # xs" by (cases "drop off b") auto
  have "take (min 64 (length b - off)) (drop off b) = take 64 (drop off b)"
    by (simp add: min_def)
  moreover have "drop (off + 64) b = drop 64 (drop off b)"
    by (simp add: add.commute)
  ultimately show ?thesis using d by simp
qed

lemma sendChunks_run:
  assumes "outEndpoint s = Some eo"
  shows "sendChunks b off s =
     (Inr (), s\<lparr>trace := trace s @ map (TransferOut (endpointNumber eo)) (chunks (drop off b))\<rparr>)"
  using assms
proof (induction b off s rule: sendChunks.induct)
  case (1 b off s)
  show ?case
  proof (cases "off < length b")
    case False
    then show ?thesis by (subst sendChunks.simps) simp
  next
    case True
    let ?c = "take (min 64 (length b - off)) (drop off b)"
    let ?s1 = "s\<lparr>trace := trace s @ [TransferOut (endpointNumber eo) ?c]\<rparr>"
    have t: "bind_io (lift_io (Uint8Array_view b off (min 64 (length b - off)))) transferOut s
               = (Inr (), ?s1)"
      using True "1.prems"
      by (simp add: bind_io_def lift_io_def Uint8Array_view_def transferOut_def)
    have "sendChunks b (off + 64) ?s1 =
       (Inr (), ?s1\<lparr>trace := trace ?s1 @
           map (TransferOut (endpointNumber eo)) (chunks (drop (off + 64) b))\<rparr>)"
      using "1.IH"[OF True refl t[symmetric] refl] "1.prems" by simp
    then show ?thesis
      using True t chunks_drop[OF True]
      by (subst sendChunks.simps) (simp add: Let_def)
  qed
qed

lemma uploadFrame_run:
  assumes "0 \<le> D" and "0 \<le> i" and "i < int (length fw)"
    and "outEndpoint s = Some eo" and "inEndpoint s = Some ei"
    and "responses s = r # rest" and "getUint8 r 0 = Inr status"
  shows "uploadFrame fw D i idx s =
     (if status = AFFIRMATIVE_RESPONSE then Inr ()
      else Inl (UnexpectedResponse AFFIRMATIVE_RESPONSE status),
      s\<lparr>responses := rest,
        trace := trace s @
          map (TransferOut (endpointNumber eo))
            (chunks (frame_buffer idx (take (nat D) (drop (nat i) fw))))
          @ [TransferIn (endpointNumber ei) 5 r]\<rparr>)"
proof -
  let ?n = "min D (int (length fw) - i)"
  let ?data = "take (nat D) (drop (nat i) fw)"
  have n: "0 \<le> ?n" using assms(1-3) by simp
  have data: "take (nat ?n) (drop (nat i) fw) = ?data"
    using assms(1-3) by (simp add: min_def nat_diff_distrib)
  have len: "length ?data = nat ?n"
    using assms(1-3) by (simp add: min_def nat_diff_distrib) linarith
  have set32: "setUint32 (replicate (nat (?n + 4)) 0) 0 idx True
      = Inr (frame_buffer idx (replicate (nat ?n) 0))"
  proof -
    have "nat (?n + 4) = nat ?n + 4" using n by linarith
    then have "nat (?n + 4) = Suc (Suc (Suc (Suc (nat ?n))))" by simp
    then show ?thesis by (simp add: setUint32_def frame_buffer_def)
  qed
  have view: "Uint8Array_view fw (nat i) (nat ?n) = Inr ?data"
    using assms(1-3) data by (simp add: Uint8Array_view_def)
  have tset: "typedArraySet (frame_buffer idx (replicate (nat ?n) 0)) ?data 4
      = Inr (frame_buffer idx ?data)"
    using len by (simp add: typedArraySet_def frame_buffer_def)
  let ?s1 = "s\<lparr>trace := trace s @ map (TransferOut (endpointNumber eo))
                 (chunks (frame_buffer idx ?data))\<rparr>"
  have send: "sendChunks (frame_buffer idx ?data) 0 s = (Inr (), ?s1)"
    using sendChunks_run[OF assms(4), of "frame_buffer idx ?data" 0] by simp
  have resp: "expectResponse AFFIRMATIVE_RESPONSE ?s1 =
     (if status = AFFIRMATIVE_RESPONSE then Inr r
      else Inl (UnexpectedResponse AFFIRMATIVE_RESPONSE status),
      ?s1\<lparr>responses := rest, trace := trace ?s1 @ [TransferIn (endpointNumber ei) 5 r]\<rparr>)"
    using assms(5-7)
    by (simp add: expectResponse_ok expectResponse_unexpected)
  have "\<not> ?n + 4 < 0" using n by linarith
  then have c1: "(?n + 4 < 0) = False" by (rule eq_False[THEN iffD2])
  have "\<not> (i < 0 \<or> ?n < 0)" using n assms(2) by linarith
  then have c2: "(i < 0 \<or> ?n < 0) = False" by (rule eq_False[THEN iffD2])
  show ?thesis
    by (simp add: uploadFrame_def Let_def bind_io_def then_io_def lift_io_def return_io_def
        c1 c2 set32 view tset send resp)
qed

lemma uploadFrames_done:
  "\<not> i < int (length fw) \<Longrightarrow> uploadFrames fw D i idx s = (Inr (), s)"
  by (subst uploadFrames.simps) simp

lemma uploadFrames_step:
  assumes "0 \<le> D" and "0 \<le> i" and "i < int (length fw)"
    and "outEndpoint s = Some eo" and "inEndpoint s = Some ei"
    and "responses s = r # rest" and "getUint8 r 0 = Inr status"
  shows "uploadFrames fw D i idx s =
     (if status = AFFIRMATIVE_RESPONSE
      then uploadFrames fw D (i + D) (idx + 1)
             (s\<lparr>responses := rest,
                trace := trace s @
                  map (TransferOut (endpointNumber eo))
                    (chunks (frame_buffer idx (take (nat D) (drop (nat i) fw))))
                  @ [TransferIn (endpointNumber ei) 5 r]\<rparr>)
      else (Inl (UnexpectedResponse AFFIRMATIVE_RESPONSE status),
            s\<lparr>responses := rest,
              trace := trace s @
                map (TransferOut (endpointNumber eo))
                  (chunks (frame_buffer idx (take (nat D) (drop (nat i) fw))))
                @ [TransferIn (endpointNumber ei) 5 r]\<rparr>))"
  using assms(3) uploadFrame_run[OF assms, of idx]
  by (subst uploadFrames.simps) simp

lemma uploadFpgaBitstream_start:
  assumes "outEndpoint s = Some eo" and "inEndpoint s = Some ei"
    and "responses s = h # rs" and "getUint8 h 0 = Inr FPGA_ACCEPTING_UPLOAD_RESPONSE"
    and "getUint32 h 1 True = Inr mcuBufferSize"
  shows "uploadFpgaBitstream fw s =
     uploadFrames fw (int mcuBufferSize - 4) 0 0
       (s\<lparr>responses := rs,
          trace := trace s @
            [TransferOut (endpointNumber eo)
               (frame FPGA_UPLOAD
                  [word_of_nat (length fw), word_of_nat (length fw div 256),
                   word_of_nat (length fw div 65536), word_of_nat (length fw div 16777216)]),
             TransferIn (endpointNumber ei) 5 h]\<rparr>)"
proof -
  have r4: "replicate 4 (0::byte) = [0, 0, 0, 0]" by (simp add: numeral_eq_Suc)
  have b: "word_of_int (int n div k) = (word_of_nat (n div nat k) :: byte)" if "0 < k" for n k
    using that by (metis nat_0_le of_int_of_nat_eq order_less_imp_le zdiv_int)
  show ?thesis
    using assms
    by (simp add: uploadFpgaBitstream_def run_simps setUint32_def r4 Let_def
        b[of 256] b[of 65536] b[of 16777216])
qed

text \<open>
  Claim C5. On a session with both endpoints, with \<open>D\<close> the size of the device's buffer
  from the handshake minus 4:
  \<^item> the upload announces the image length, reads the handshake, and with a device buffer
    of \<open>D + 4\<close> bytes goes on with frames of \<open>D\<close> data bytes, from offset 0 and index 0;
  \<^item> at offset \<open>i\<close> inside the image and frame index \<open>k\<close>, the frame sent is the index
    \<open>k\<close> in four little-endian bytes followed by the at most \<open>D\<close> bytes of the image
    from \<open>i\<close> on, in pieces of at most 64 bytes; then one response is read; when its
    status is the affirmative one the loop goes on at offset \<open>i + D\<close> with index \<open>k + 1\<close>,
    otherwise it fails with that status and sends nothing more;
  \<^item> at an offset at or behind the end of the image the loop returns;
  \<^item> for an image of \<open>2 * D + 7\<close> bytes, where a last frame of 7 bytes is one of at most
    \<open>D\<close> bytes (\<open>D \<ge> 7\<close>), three acknowledged frames are sent, with indices 0, 1, 2,
    the last with the 7 bytes that remain, and the upload returns;
  \<^item> for the same image, a response to frame 1 that is not affirmative fails the upload
    after frame 1: the trace holds frames 0 and 1 and no frame 2.
\<close>

theorem uploadFpgaBitstream_frames:
  assumes "outEndpoint s = Some eo" and "inEndpoint s = Some ei"
  shows
   "(responses s = h # rs \<and> getUint8 h 0 = Inr FPGA_ACCEPTING_UPLOAD_RESPONSE
       \<and> getUint32 h 1 True = Inr (D + 4)
     \<longrightarrow> uploadFpgaBitstream fw s =
           uploadFrames fw (int D) 0 0
             (s\<lparr>responses := rs,
                trace := trace s @
                  [TransferOut (endpointNumber eo)
                     (frame FPGA_UPLOAD
                        [word_of_nat (length fw), word_of_nat (length fw div 256),
                         word_of_nat (length fw div 65536),
                         word_of_nat (length fw div 16777216)]),
                   TransferIn (endpointNumber ei) 5 h]\<rparr>))
  \<and> (i < length fw \<and> responses s = r # rest \<and> getUint8 r 0 = Inr status
     \<longrightarrow> length (take D (drop i fw)) \<le> D
       \<and> uploadFrames fw (int D) (int i) (int k) s =
           (if status = AFFIRMATIVE_RESPONSE
            then uploadFrames fw (int D) (int (i + D)) (int (k + 1))
                   (s\<lparr>responses := rest,
                      trace := trace s @
                        map (TransferOut (endpointNumber eo))
                          (chunks (frame_buffer (int k) (take D (drop i fw))))
                        @ [TransferIn (endpointNumber ei) 5 r]\<rparr>)
            else (Inl (UnexpectedResponse AFFIRMATIVE_RESPONSE status),
                  s\<lparr>responses := rest,
                    trace := trace s @
                      map (TransferOut (endpointNumber eo))
                        (chunks (frame_buffer (int k) (take D (drop i fw))))
                      @ [TransferIn (endpointNumber ei) 5 r]\<rparr>)))
  \<and> (length fw \<le> i \<longrightarrow> uploadFrames fw (int D) (int i) (int k) s = (Inr (), s))
  \<and> (7 \<le> D \<and> length fw = 2 * D + 7 \<and> responses s = r0 # r1 # r2 # rest
       \<and> affirmative r0 \<and> affirmative r1 \<and> affirmative r2
     \<longrightarrow> length (drop (2 * D) fw) = 7
       \<and> uploadFrames fw (int D) 0 0 s =
           (Inr (),
            s\<lparr>responses := rest,
              trace := trace s @
                map (TransferOut (endpointNumber eo)) (chunks (frame_buffer 0 (take D fw)))
                @ [TransferIn (endpointNumber ei) 5 r0]
                @ map (TransferOut (endpointNumber eo))
                    (chunks (frame_buffer 1 (take D (drop D fw))))
                @ [TransferIn (endpointNumber ei) 5 r1]
                @ map (TransferOut (endpointNumber eo))
                    (chunks (frame_buffer 2 (drop (2 * D) fw)))
                @ [TransferIn (endpointNumber ei) 5 r2]\<rparr>))
  \<and> (7 \<le> D \<and> length fw = 2 * D + 7 \<and> responses s = r0 # r1 # rest
       \<and> affirmative r0 \<and> getUint8 r1 0 = Inr status \<and> status \<noteq> AFFIRMATIVE_RESPONSE
     \<longrightarrow> uploadFrames fw (int D) 0 0 s =
           (Inl (UnexpectedResponse AFFIRMATIVE_RESPONSE status),
            s\<lparr>responses := rest,
              trace := trace s @
                map (TransferOut (endpointNumber eo)) (chunks (frame_buffer 0 (take D fw)))
                @ [TransferIn (endpointNumber ei) 5 r0]
                @ map (TransferOut (endpointNumber eo))
                    (chunks (frame_buffer 1 (take D (drop D fw))))
                @ [TransferIn (endpointNumber ei) 5 r1]\<rparr>))"
proof (intro conjI impI)
  assume a: "responses s = h # rs \<and> getUint8 h 0 = Inr FPGA_ACCEPTING_UPLOAD_RESPONSE
       \<and> getUint32 h 1 True = Inr (D + 4)"
  show "uploadFpgaBitstream fw s =
           uploadFrames fw (int D) 0 0
             (s\<lparr>responses := rs,
                trace := trace s @
                  [TransferOut (endpointNumber eo)
                     (frame FPGA_UPLOAD
                        [word_of_nat (length fw), word_of_nat (length fw div 256),
                         word_of_nat (length fw div 65536),
                         word_of_nat (length fw div 16777216)]),
                   TransferIn (endpointNumber ei) 5 h]\<rparr>)"
    using uploadFpgaBitstream_start[OF assms, of h rs "D + 4" fw] a by simp
next
  assume a: "i < length fw \<and> responses s = r # rest \<and> getUint8 r 0 = Inr status"
  show "length (take D (drop i fw)) \<le> D" by simp
  show "uploadFrames fw (int D) (int i) (int k) s =
           (if status = AFFIRMATIVE_RESPONSE
            then uploadFrames fw (int D) (int (i + D)) (int (k + 1))
                   (s\<lparr>responses := rest,
                      trace := trace s @
                        map (TransferOut (endpointNumber eo))
                          (chunks (frame_buffer (int k) (take D (drop i fw))))
                        @ [TransferIn (endpointNumber ei) 5 r]\<rparr>)
            else (Inl (UnexpectedResponse AFFIRMATIVE_RESPONSE status),
                  s\<lparr>responses := rest,
                    trace := trace s @
                      map (TransferOut (endpointNumber eo))
                        (chunks (frame_buffer (int k) (take D (drop i fw))))
                      @ [TransferIn (endpointNumber ei) 5 r]\<rparr>))"
    using uploadFrames_step[OF _ _ _ assms, of "int D" "int i" fw r rest status "int k"] a
    by (simp add: ac_simps)
next
  assume "length fw \<le> i"
  then show "uploadFrames fw (int D) (int i) (int k) s = (Inr (), s)"
    by (intro uploadFrames_done) simp
next
  assume a: "7 \<le> D \<and> length fw = 2 * D + 7 \<and> responses s = r0 # r1 # r2 # rest
       \<and> affirmative r0 \<and> affirmative r1 \<and> affirmative r2"
  show "length (drop (2 * D) fw) = 7" using a by simp
  let ?s1 = "s\<lparr>responses := r1 # r2 # rest,
      trace := trace s @
        map (TransferOut (endpointNumber eo)) (chunks (frame_buffer 0 (take D fw)))
        @ [TransferIn (endpointNumber ei) 5 r0]\<rparr>"
  let ?s2 = "?s1\<lparr>responses := r2 # rest,
      trace := trace ?s1 @
        map (TransferOut (endpointNumber eo)) (chunks (frame_buffer 1 (take D (drop D fw))))
        @ [TransferIn (endpointNumber ei) 5 r1]\<rparr>"
  let ?s3 = "?s2\<lparr>responses := rest,
      trace := trace ?s2 @
        map (TransferOut (endpointNumber eo)) (chunks (frame_buffer 2 (drop (2 * D) fw)))
        @ [TransferIn (endpointNumber ei) 5 r2]\<rparr>"
  have 0: "uploadFrames fw (int D) 0 0 s = uploadFrames fw (int D) (int D) 1 ?s1"
    using uploadFrames_step[OF _ _ _ assms, of "int D" 0 fw r0 "r1 # r2 # rest"
        AFFIRMATIVE_RESPONSE 0] a
    by (simp add: affirmative_def)
  have 1: "uploadFrames fw (int D) (int D) 1 ?s1 = uploadFrames fw (int D) (int (2 * D)) 2 ?s2"
    using uploadFrames_step[of "int D" "int D" fw ?s1 eo ei r1 "r2 # rest"
        AFFIRMATIVE_RESPONSE 1] assms a
    by (simp add: affirmative_def)
  have n2: "nat (2 * int D) = 2 * D" by linarith
  have last: "take D (drop (2 * D) fw) = drop (2 * D) fw" using a by simp
  have 2: "uploadFrames fw (int D) (int (2 * D)) 2 ?s2 = uploadFrames fw (int D) (int (3 * D)) 3 ?s3"
    using uploadFrames_step[of "int D" "int (2 * D)" fw ?s2 eo ei r2 rest
        AFFIRMATIVE_RESPONSE 2] assms a
    by (simp add: affirmative_def n2 last)
  have 3: "uploadFrames fw (int D) (int (3 * D)) 3 ?s3 = (Inr (), ?s3)"
    using a by (intro uploadFrames_done) simp
  show "uploadFrames fw (int D) 0 0 s =
           (Inr (),
            s\<lparr>responses := rest,
              trace := trace s @
                map (TransferOut (endpointNumber eo)) (chunks (frame_buffer 0 (take D fw)))
                @ [TransferIn (endpointNumber ei) 5 r0]
                @ map (TransferOut (endpointNumber eo))
                    (chunks (frame_buffer 1 (take D (drop D fw))))
                @ [TransferIn (endpointNumber ei) 5 r1]
                @ map (TransferOut (endpointNumber eo))
                    (chunks (frame_buffer 2 (drop (2 * D) fw)))
                @ [TransferIn (endpointNumber ei) 5 r2]\<rparr>)"
    unfolding 0 1 2 3 by simp
next
  assume a: "7 \<le> D \<and> length fw = 2 * D + 7 \<and> responses s = r0 # r1 # rest
       \<and> affirmative r0 \<and> getUint8 r1 0 = Inr status \<and> status \<noteq> AFFIRMATIVE_RESPONSE"
  let ?s1 = "s\<lparr>responses := r1 # rest,
      trace := trace s @
        map (TransferOut (endpointNumber eo)) (chunks (frame_buffer 0 (take D fw)))
        @ [TransferIn (endpointNumber ei) 5 r0]\<rparr>"
  have 0: "uploadFrames fw (int D) 0 0 s = uploadFrames fw (int D) (int D) 1 ?s1"
    using uploadFrames_step[OF _ _ _ assms, of "int D" 0 fw r0 "r1 # rest"
        AFFIRMATIVE_RESPONSE 0] a
    by (simp add: affirmative_def)
  have 1: "uploadFrames fw (int D) (int D) 1 ?s1 =
      (Inl (UnexpectedResponse AFFIRMATIVE_RESPONSE status),
       ?s1\<lparr>responses := rest,
         trace := trace ?s1 @
           map (TransferOut (endpointNumber eo)) (chunks (frame_buffer 1 (take D (drop D fw))))
           @ [TransferIn (endpointNumber ei) 5 r1]\<rparr>)"
    using uploadFrames_step[of "int D" "int D" fw ?s1 eo ei r1 rest status 1] assms a
    by simp
  show "uploadFrames fw (int D) 0 0 s =
           (Inl (UnexpectedResponse AFFIRMATIVE_RESPONSE status),
            s\<lparr>responses := rest,
              trace := trace s @
                map (TransferOut (endpointNumber eo)) (chunks (frame_buffer 0 (take D fw)))
                @ [TransferIn (endpointNumber ei) 5 r0]
                @ map (TransferOut (endpointNumber eo))
                    (chunks (frame_buffer 1 (take D (drop D fw))))
                @ [TransferIn (endpointNumber ei) 5 r1]\<rparr>)"
    unfolding 0 1 by simp
qed

lemma example_session_fields:
  "outEndpoint (example_session rs) = Some \<lparr>endpointNumber = 3, direction = DirOut\<rparr>"
  "inEndpoint (example_session rs) = Some \<lparr>endpointNumber = 1, direction = DirIn\<rparr>"
  "responses (example_session rs) = rs"
  "calibrationData (example_session rs) = replicate 60 0"
  by (simp_all add: example_session_eq)

theorem uploadFpgaBitstream_frames_witness:
  "uploadFpgaBitstream [1, 2, 3, 4, 5, 6, 7, 8, 9, 10, 11, 12, 13, 14, 15, 16, 17, 18, 19, 20, 21]
     (example_session [[0x44, 11, 0, 0, 0], [0x53, 0, 0, 0, 0]])
   = uploadFrames [1, 2, 3, 4, 5, 6, 7, 8, 9, 10, 11, 12, 13, 14, 15, 16, 17, 18, 19, 20, 21]
       7 0 0
       ((example_session [[0x44, 11, 0, 0, 0], [0x53, 0, 0, 0, 0]])
          \<lparr>responses := [[0x53, 0, 0, 0, 0]],
           trace := trace (example_session [[0x44, 11, 0, 0, 0], [0x53, 0, 0, 0, 0]]) @
             [TransferOut 3 [0x00, 0x40, 0, 0, 4, 21, 0, 0, 0],
              TransferIn 1 5 [0x44, 11, 0, 0, 0]]\<rparr>)
   \<and> uploadFrames [1, 2, 3, 4, 5, 6, 7, 8, 9, 10, 11, 12, 13, 14, 15, 16, 17, 18, 19, 20, 21]
       7 14 2 (example_session [[0x45, 0, 0, 0, 0], [9]])
     = (Inl (UnexpectedResponse 0x53 0x45),
        (example_session [[0x45, 0, 0, 0, 0], [9]])
          \<lparr>responses := [[9]],
           trace := trace (example_session [[0x45, 0, 0, 0, 0], [9]]) @
             [TransferOut 3 [2, 0, 0, 0, 15, 16, 17, 18, 19, 20, 21],
              TransferIn 1 5 [0x45, 0, 0, 0, 0]]\<rparr>)
   \<and> uploadFrames [1, 2, 3, 4, 5, 6, 7, 8, 9, 10, 11, 12, 13, 14, 15, 16, 17, 18, 19, 20, 21]
       7 21 3 (example_session [[9]])
     = (Inr (), example_session [[9]])
   \<and> uploadFrames [1, 2, 3, 4, 5, 6, 7, 8, 9, 10, 11, 12, 13, 14, 15, 16, 17, 18, 19, 20, 21]
       7 0 0 (example_session [[0x53, 0, 0, 0, 0], [0x53, 1, 0, 0, 0], [0x53, 2, 0, 0, 0], [9]])
     = (Inr (),
        (example_session [[0x53, 0, 0, 0, 0], [0x53, 1, 0, 0, 0], [0x53, 2, 0, 0, 0], [9]])
          \<lparr>responses := [[9]],
           trace := trace (example_session
                      [[0x53, 0, 0, 0, 0], [0x53, 1, 0, 0, 0], [0x53, 2, 0, 0, 0], [9]]) @
             [TransferOut 3 [0, 0, 0, 0, 1, 2, 3, 4, 5, 6, 7],
              TransferIn 1 5 [0x53, 0, 0, 0, 0],
              TransferOut 3 [1, 0, 0, 0, 8, 9, 10, 11, 12, 13, 14],
              TransferIn 1 5 [0x53, 1, 0, 0, 0],
              TransferOut 3 [2, 0, 0, 0, 15, 16, 17, 18, 19, 20, 21],
              TransferIn 1 5 [0x53, 2, 0, 0, 0]]\<rparr>)
   \<and> uploadFrames [1, 2, 3, 4, 5, 6, 7, 8, 9, 10, 11, 12, 13, 14, 15, 16, 17, 18, 19, 20, 21]
       7 0 0 (example_session [[0x53, 0, 0, 0, 0], [0x00, 1, 0, 0, 0], [0x53, 2, 0, 0, 0]])
     = (Inl (UnexpectedResponse 0x53 0),
        (example_session [[0x53, 0, 0, 0, 0], [0x00, 1, 0, 0, 0], [0x53, 2, 0, 0, 0]])
          \<lparr>responses := [[0x53, 2, 0, 0, 0]],
           trace := trace (example_session
                      [[0x53, 0, 0, 0, 0], [0x00, 1, 0, 0, 0], [0x53, 2, 0, 0, 0]]) @
             [TransferOut 3 [0, 0, 0, 0, 1, 2, 3, 4, 5, 6, 7],
              TransferIn 1 5 [0x53, 0, 0, 0, 0],
              TransferOut 3 [1, 0, 0, 0, 8, 9, 10, 11, 12, 13, 14],
              TransferIn 1 5 [0x00, 1, 0, 0, 0]]\<rparr>)"
proof -
  let ?fw = "[1, 2, 3, 4, 5, 6, 7, 8, 9, 10, 11, 12, 13, 14, 15, 16, 17, 18, 19, 20, 21 :: byte]"
  have z: "(16384 :: byte) = 0" by simp
  note ev = z example_session_fields getUint8_def getUint32_def AFFIRMATIVE_RESPONSE_def
    FPGA_ACCEPTING_UPLOAD_RESPONSE_def FPGA_UPLOAD_def frame_def frame_buffer_def
    affirmative_def
  have start: "uploadFpgaBitstream ?fw (example_session [[0x44, 11, 0, 0, 0], [0x53, 0, 0, 0, 0]])
   = uploadFrames ?fw 7 0 0
       ((example_session [[0x44, 11, 0, 0, 0], [0x53, 0, 0, 0, 0]])
          \<lparr>responses := [[0x53, 0, 0, 0, 0]],
           trace := trace (example_session [[0x44, 11, 0, 0, 0], [0x53, 0, 0, 0, 0]]) @
             [TransferOut 3 [0x00, 0x40, 0, 0, 4, 21, 0, 0, 0],
              TransferIn 1 5 [0x44, 11, 0, 0, 0]]\<rparr>)"
    using uploadFpgaBitstream_frames[where s = "example_session [[0x44, 11, 0, 0, 0], [0x53, 0, 0, 0, 0]]"
          and eo = "\<lparr>endpointNumber = 3, direction = DirOut\<rparr>"
          and ei = "\<lparr>endpointNumber = 1, direction = DirIn\<rparr>"
          and h = "[0x44, 11, 0, 0, 0]" and rs = "[[0x53, 0, 0, 0, 0]]" and D = 7 and fw = ?fw
          and i = 0
          and r = "[]"
          and rest = "[]"
          and status = 0
          and k = 0
          and ?r0.0 = "[]"
          and ?r1.0 = "[]"
          and ?r2.0 = "[]"]
    by (simp add: ev)
  have step: "uploadFrames ?fw 7 14 2 (example_session [[0x45, 0, 0, 0, 0], [9]])
     = (Inl (UnexpectedResponse 0x53 0x45),
        (example_session [[0x45, 0, 0, 0, 0], [9]])
          \<lparr>responses := [[9]],
           trace := trace (example_session [[0x45, 0, 0, 0, 0], [9]]) @
             [TransferOut 3 [2, 0, 0, 0, 15, 16, 17, 18, 19, 20, 21],
              TransferIn 1 5 [0x45, 0, 0, 0, 0]]\<rparr>)"
    using uploadFpgaBitstream_frames[where s = "example_session [[0x45, 0, 0, 0, 0], [9]]"
          and eo = "\<lparr>endpointNumber = 3, direction = DirOut\<rparr>"
          and ei = "\<lparr>endpointNumber = 1, direction = DirIn\<rparr>"
          and D = 7 and fw = ?fw and i = 14 and k = 2 and r = "[0x45, 0, 0, 0, 0]"
          and rest = "[[9]]" and status = "0x45"
          and h = "[]"
          and rs = "[]"
          and ?r0.0 = "[]"
          and ?r1.0 = "[]"
          and ?r2.0 = "[]"]
    by (simp add: ev)
  have fin: "uploadFrames ?fw 7 21 3 (example_session [[9]]) = (Inr (), example_session [[9]])"
    using uploadFpgaBitstream_frames[where s = "example_session [[9]]"
          and eo = "\<lparr>endpointNumber = 3, direction = DirOut\<rparr>"
          and ei = "\<lparr>endpointNumber = 1, direction = DirIn\<rparr>"
          and D = 7 and fw = ?fw and i = 21 and k = 3
          and h = "[]"
          and rs = "[]"
          and r = "[]"
          and rest = "[]"
          and status = 0
          and ?r0.0 = "[]"
          and ?r1.0 = "[]"
          and ?r2.0 = "[]"]
    by (simp add: ev)
  have three: "uploadFrames ?fw 7 0 0
       (example_session [[0x53, 0, 0, 0, 0], [0x53, 1, 0, 0, 0], [0x53, 2, 0, 0, 0], [9]])
     = (Inr (),
        (example_session [[0x53, 0, 0, 0, 0], [0x53, 1, 0, 0, 0], [0x53, 2, 0, 0, 0], [9]])
          \<lparr>responses := [[9]],
           trace := trace (example_session
                      [[0x53, 0, 0, 0, 0], [0x53, 1, 0, 0, 0], [0x53, 2, 0, 0, 0], [9]]) @
             [TransferOut 3 [0, 0, 0, 0, 1, 2, 3, 4, 5, 6, 7],
              TransferIn 1 5 [0x53, 0, 0, 0, 0],
              TransferOut 3 [1, 0, 0, 0, 8, 9, 10, 11, 12, 13, 14],
              TransferIn 1 5 [0x53, 1, 0, 0, 0],
              TransferOut 3 [2, 0, 0, 0, 15, 16, 17, 18, 19, 20, 21],
              TransferIn 1 5 [0x53, 2, 0, 0, 0]]\<rparr>)"
    using uploadFpgaBitstream_frames[where s = "example_session [[0x53, 0, 0, 0, 0], [0x53, 1, 0, 0, 0], [0x53, 2, 0, 0, 0], [9]]"
          and eo = "\<lparr>endpointNumber = 3, direction = DirOut\<rparr>"
          and ei = "\<lparr>endpointNumber = 1, direction = DirIn\<rparr>"
          and D = 7 and fw = ?fw and ?r0.0 = "[0x53, 0, 0, 0, 0]" and ?r1.0 = "[0x53, 1, 0, 0, 0]"
          and ?r2.0 = "[0x53, 2, 0, 0, 0]" and rest = "[[9]]"
          and h = "[]"
          and rs = "[]"
          and i = 0
          and r = "[]"
          and status = 0
          and k = 0]
    by (simp add: ev)
  have reject: "uploadFrames ?fw 7 0 0
       (example_session [[0x53, 0, 0, 0, 0], [0x00, 1, 0, 0, 0], [0x53, 2, 0, 0, 0]])
     = (Inl (UnexpectedResponse 0x53 0),
        (example_session [[0x53, 0, 0, 0, 0], [0x00, 1, 0, 0, 0], [0x53, 2, 0, 0, 0]])
          \<lparr>responses := [[0x53, 2, 0, 0, 0]],
           trace := trace (example_session
                      [[0x53, 0, 0, 0, 0], [0x00, 1, 0, 0, 0], [0x53, 2, 0, 0, 0]]) @
             [TransferOut 3 [0, 0, 0, 0, 1, 2, 3, 4, 5, 6, 7],
              TransferIn 1 5 [0x53, 0, 0, 0, 0],
              TransferOut 3 [1, 0, 0, 0, 8, 9, 10, 11, 12, 13, 14],
              TransferIn 1 5 [0x00, 1, 0, 0, 0]]\<rparr>)"
    using uploadFpgaBitstream_frames[where s = "example_session [[0x53, 0, 0, 0, 0], [0x00, 1, 0, 0, 0], [0x53, 2, 0, 0, 0]]"
          and eo = "\<lparr>endpointNumber = 3, direction = DirOut\<rparr>"
          and ei = "\<lparr>endpointNumber = 1, direction = DirIn\<rparr>"
          and D = 7 and fw = ?fw and ?r0.0 = "[0x53, 0, 0, 0, 0]" and ?r1.0 = "[0x00, 1, 0, 0, 0]"
          and rest = "[[0x53, 2, 0, 0, 0]]" and status = 0
          and h = "[]"
          and rs = "[]"
          and i = 0
          and r = "[]"
          and k = 0
          and ?r2.0 = "[]"]
    by (simp add: ev)
  show ?thesis using start step fin three reject by (intro conjI)
qed

lemma uploadFrames_eval:
  assumes "0 \<le> D" and "0 \<le> i" and "i < int (length fw)" and "r \<noteq> []"
  shows "uploadFrames fw D i idx
           \<lparr>endpoints = eps, responses = r # rest, trace = tr, inEndpoint = Some ei,
            outEndpoint = Some eo, calibrationData = c, firmwareVersion = fv,
            serialNumber = sn\<rparr> =
     (if unat (r ! 0) = AFFIRMATIVE_RESPONSE
      then uploadFrames fw D (i + D) (idx + 1)
             \<lparr>endpoints = eps, responses = rest,
              trace = tr @ map (TransferOut (endpointNumber eo))
                        (chunks (frame_buffer idx (take (nat D) (drop (nat i) fw))))
                      @ [TransferIn (endpointNumber ei) 5 r],
              inEndpoint = Some ei, outEndpoint = Some eo, calibrationData = c,
              firmwareVersion = fv, serialNumber = sn\<rparr>
      else (Inl (UnexpectedResponse AFFIRMATIVE_RESPONSE (unat (r ! 0))),
             \<lparr>endpoints = eps, responses = rest,
              trace = tr @ map (TransferOut (endpointNumber eo))
                        (chunks (frame_buffer idx (take (nat D) (drop (nat i) fw))))
                      @ [TransferIn (endpointNumber ei) 5 r],
              inEndpoint = Some ei, outEndpoint = Some eo, calibrationData = c,
              firmwareVersion = fv, serialNumber = sn\<rparr>))"
proof -
  have g: "getUint8 r 0 = Inr (unat (r ! 0))"
    using assms(4) by (cases r) (simp_all add: getUint8_def)
  show ?thesis
    using uploadFrames_step[OF assms(1-3) _ _ _ g, of _ eo ei rest idx] by simp
qed

text \<open>
  A device buffer of fewer than 11 bytes leaves \<open>D < 7\<close>, and the 7 bytes that remain of
  an image of \<open>2 * D + 7\<close> bytes do not fit one frame. With a buffer of 7 bytes (\<open>D = 3\<close>)
  and an image of 13 bytes, every frame acknowledged, five frames are sent, the last with
  one data byte.
\<close>

lemma uploadFpgaBitstream_small_buffer:
  "length [1, 2, 3, 4, 5, 6, 7, 8, 9, 10, 11, 12, 13 :: byte] = 2 * 3 + 7
   \<and> getUint32 [0x44, 7, 0, 0, 0] 1 True = Inr (3 + 4)
   \<and> fst (uploadFpgaBitstream [1, 2, 3, 4, 5, 6, 7, 8, 9, 10, 11, 12, 13]
        (example_session
           [[0x44, 7, 0, 0, 0], [0x53, 0, 0, 0, 0], [0x53, 0, 0, 0, 0], [0x53, 0, 0, 0, 0],
            [0x53, 0, 0, 0, 0], [0x53, 0, 0, 0, 0]])) = Inr ()
   \<and> trace (snd (uploadFpgaBitstream [1, 2, 3, 4, 5, 6, 7, 8, 9, 10, 11, 12, 13]
        (example_session
           [[0x44, 7, 0, 0, 0], [0x53, 0, 0, 0, 0], [0x53, 0, 0, 0, 0], [0x53, 0, 0, 0, 0],
            [0x53, 0, 0, 0, 0], [0x53, 0, 0, 0, 0]])))
     = [TransferOut 3 [0x01, 0x40, 0, 0, 1, 0x56], TransferIn 1 5 [0x56, 0, 0, 0, 0],
        TransferOut 3 [0x00, 0x40, 0, 0, 4, 13, 0, 0, 0], TransferIn 1 5 [0x44, 7, 0, 0, 0],
        TransferOut 3 [0, 0, 0, 0, 1, 2, 3], TransferIn 1 5 [0x53, 0, 0, 0, 0],
        TransferOut 3 [1, 0, 0, 0, 4, 5, 6], TransferIn 1 5 [0x53, 0, 0, 0, 0],
        TransferOut 3 [2, 0, 0, 0, 7, 8, 9], TransferIn 1 5 [0x53, 0, 0, 0, 0],
        TransferOut 3 [3, 0, 0, 0, 10, 11, 12], TransferIn 1 5 [0x53, 0, 0, 0, 0],
        TransferOut 3 [4, 0, 0, 0, 13], TransferIn 1 5 [0x53, 0, 0, 0, 0]]"
proof -
  have h: "getUint32 [0x44, 7, 0, 0, 0] 1 True = Inr 7"
    by (simp add: getUint32_def)
  have "uploadFpgaBitstream [1, 2, 3, 4, 5, 6, 7, 8, 9, 10, 11, 12, 13]
        (example_session
           [[0x44, 7, 0, 0, 0], [0x53, 0, 0, 0, 0], [0x53, 0, 0, 0, 0], [0x53, 0, 0, 0, 0],
            [0x53, 0, 0, 0, 0], [0x53, 0, 0, 0, 0]])
     = (Inr (),
        \<lparr>endpoints = example_endpoints, responses = [],
         trace = [TransferOut 3 [0x01, 0x40, 0, 0, 1, 0x56], TransferIn 1 5 [0x56, 0, 0, 0, 0],
        TransferOut 3 [0x00, 0x40, 0, 0, 4, 13, 0, 0, 0], TransferIn 1 5 [0x44, 7, 0, 0, 0],
        TransferOut 3 [0, 0, 0, 0, 1, 2, 3], TransferIn 1 5 [0x53, 0, 0, 0, 0],
        TransferOut 3 [1, 0, 0, 0, 4, 5, 6], TransferIn 1 5 [0x53, 0, 0, 0, 0],
        TransferOut 3 [2, 0, 0, 0, 7, 8, 9], TransferIn 1 5 [0x53, 0, 0, 0, 0],
        TransferOut 3 [3, 0, 0, 0, 10, 11, 12], TransferIn 1 5 [0x53, 0, 0, 0, 0],
        TransferOut 3 [4, 0, 0, 0, 13], TransferIn 1 5 [0x53, 0, 0, 0, 0]],
         inEndpoint = Some \<lparr>endpointNumber = 1, direction = DirIn\<rparr>,
         outEndpoint = Some \<lparr>endpointNumber = 3, direction = DirOut\<rparr>,
         calibrationData = replicate 60 0, firmwareVersion = [], serialNumber = []\<rparr>)"
    unfolding uploadFpgaBitstream_start[OF example_session_fields(1,2,3) _ h,
        unfolded FPGA_ACCEPTING_UPLOAD_RESPONSE_def getUint8_def, simplified]
    by (simp add: example_session_eq uploadFrames_eval uploadFrames_done
        AFFIRMATIVE_RESPONSE_def frame_buffer_def frame_def FPGA_UPLOAD_def)
  then show ?thesis by (simp add: getUint32_def)
qed

section \<open>The sample decoder\<close>

lemma getInt16_sample:
  "off + 2 \<le> length dv \<Longrightarrow>
   \<exists>v. getInt16 dv off True = Inr v \<and> of_int v * multiplier = sample_at dv off"
  by (simp add: getInt16_def getUint16_def sample_at_def Let_def)

lemma getInt16_short:
  "\<not> off + 2 \<le> length dv \<Longrightarrow> getInt16 dv off True = Inl RangeError"
  by (simp add: getInt16_def getUint16_def)

lemma decodeLoop_samples:
  "\<exists>caught fd. decodeLoop dv b t floatData = (caught, fd)
      \<and> length fd = length floatData
      \<and> (\<forall>i < length fd. fd ! i =
            (if t \<le> i \<and> b + 4 * (i - t) + 2 \<le> length dv
             then sample_at dv (b + 4 * (i - t)) else floatData ! i))"
proof (induction dv b t floatData rule: decodeLoop.induct)
  case (1 dv b t floatData)
  show ?case
  proof (cases "b < length dv")
    case False
    then have "decodeLoop dv b t floatData = (None, floatData)"
      by (subst decodeLoop.simps) simp
    then show ?thesis using False by auto
  next
    case True
    show ?thesis
    proof (cases "b + 2 \<le> length dv")
      case False
      then have "decodeLoop dv b t floatData = (Some RangeError, floatData)"
        using True getInt16_short[of b dv] by (subst decodeLoop.simps) simp
      then show ?thesis using False by auto
    next
      case le: True
      obtain v where v: "getInt16 dv b True = Inr v" "of_int v * multiplier = sample_at dv b"
        using getInt16_sample[OF le] by blast
      let ?fd1 = "floatData[t := sample_at dv b]"
      have step: "decodeLoop dv b t floatData = decodeLoop dv (b + 4) (t + 1) ?fd1"
        using True v by (subst decodeLoop.simps) simp
      obtain caught fd where fd: "decodeLoop dv (b + 4) (t + 1) ?fd1 = (caught, fd)"
        "length fd = length ?fd1"
        "\<And>i. i < length fd \<Longrightarrow> fd ! i =
            (if t + 1 \<le> i \<and> b + 4 + 4 * (i - (t + 1)) + 2 \<le> length dv
             then sample_at dv (b + 4 + 4 * (i - (t + 1))) else ?fd1 ! i)"
        using "1.IH"[OF True v(1)] v(2) by auto
      have pt: "fd ! i =
            (if t \<le> i \<and> b + 4 * (i - t) + 2 \<le> length dv
             then sample_at dv (b + 4 * (i - t)) else floatData ! i)" if i: "i < length fd" for i
      proof (cases "i = t")
        case True
        then show ?thesis using fd(3)[OF i] i fd(2) le by simp
      next
        case False
        show ?thesis
        proof (cases "t + 1 \<le> i")
          case True
          then have e: "b + 4 + 4 * (i - (t + 1)) = b + 4 * (i - t)" by simp
          have "fd ! i =
            (if t + 1 \<le> i \<and> b + 4 * (i - t) + 2 \<le> length dv
             then sample_at dv (b + 4 * (i - t)) else ?fd1 ! i)"
            using fd(3)[OF i] unfolding e .
          then show ?thesis using True False by simp
        next
          case lt: False
          then show ?thesis using fd(3)[OF i] False by simp
        qed
      qed
      show ?thesis unfolding step fd(1) using fd(2) pt by simp
    qed
  qed
qed

text \<open>
  For every buffer of at least one byte the decoder returns 1275 samples: sample \<open>i\<close> is
  the scaled signed 16-bit value at offset \<open>111 + 4 * i\<close> when both of its bytes lie inside
  the buffer, and 0 otherwise; a buffer that ends early does not make it fail. For the
  buffer of 5211 zero bytes with the value 3096 at offset 111 the first sample is 1.
\<close>

lemma gotData_nonempty:
  assumes "dataView \<noteq> []"
  shows "\<exists>fd. gotData dataView = Inr fd \<and> length fd = 1275
     \<and> (\<forall>i < 1275. fd ! i =
           (if 111 + 4 * i + 2 \<le> length dataView then sample_at dataView (111 + 4 * i) else 0))"
proof -
  obtain caught fd where fd: "decodeLoop dataView 111 0 (replicate 1275 0) = (caught, fd)"
    "length fd = 1275"
    "\<And>i. i < 1275 \<Longrightarrow> fd ! i =
        (if 111 + 4 * i + 2 \<le> length dataView then sample_at dataView (111 + 4 * i) else 0)"
    using decodeLoop_samples[of dataView 111 0 "replicate 1275 0"] by auto
  have "gotData dataView = Inr fd"
    using assms fd(1) by (cases dataView) (simp_all add: gotData_def getUint8_def)
  then show ?thesis using fd(2,3) by blast
qed

lemma gotData_unit_sample:
  "\<exists>fd. gotData (replicate 111 0 @ [0x18, 0x0c] @ replicate 5098 0) = Inr fd \<and> fd ! 0 = 1"
proof -
  have len: "length (replicate 111 (0::byte) @ [0x18, 0x0c] @ replicate 5098 0) = 5211"
    by simp
  obtain fd where fd: "gotData (replicate 111 0 @ [0x18, 0x0c] @ replicate 5098 0) = Inr fd"
    "\<And>i. i < 1275 \<Longrightarrow> fd ! i =
           (if 111 + 4 * i + 2 \<le> length (replicate 111 (0::byte) @ [0x18, 0x0c] @ replicate 5098 0)
            then sample_at (replicate 111 0 @ [0x18, 0x0c] @ replicate 5098 0) (111 + 4 * i)
            else 0)"
    using gotData_nonempty[of "replicate 111 0 @ [0x18, 0x0c] @ replicate 5098 0"] by auto
  have "fd ! 0 = sample_at (replicate 111 0 @ [0x18, 0x0c] @ replicate 5098 0) 111"
    using fd(2)[of 0] by simp
  also have "\<dots> = 1"
    by (simp add: sample_at_def nth_append multiplier_def)
  finally show ?thesis using fd(1) by blast
qed

text \<open>
  Claim C8, evaluated where the code departs from it. The channel byte is read before the
  \<open>try\<close> block: on an empty buffer \<open>getUint8(0)\<close> throws a RangeError that nothing
  catches, and no sample array is produced.
\<close>

theorem gotData_throws_on_empty_buffer: "gotData [] = Inl RangeError"
  by (simp add: gotData_def getUint8_def)

end
